theory Spec2Isabelle
  imports Main
begin

section \<open>JavaScript values used by the dashboard\<close>

text \<open>
  The dashboard (\<^verbatim>\<open>src/frontend/web/src/App.tsx\<close>) works with JavaScript numbers,
  strings and thrown errors. Only the integer-valued part of the number type occurs in
  the code under study, so a number is an integer that a double represents exactly,
  \<open>NaN\<close>, or an infinity.
\<close>

datatype jsnum = Num int | NaN | PosInf | NegInf

fun bitLength :: "nat \<Rightarrow> nat" where
  "bitLength n = (if n = 0 then 0 else Suc (bitLength (n div 2)))"

declare bitLength.simps [simp del]

text \<open>
  Rounding of a natural number to the nearest double, ties to even: a double keeps 53
  significant bits.
\<close>

definition roundDouble :: "nat \<Rightarrow> nat" where
  "roundDouble n =
     (if n < 2 ^ 53 then n
      else let sh = bitLength n - 53;
               q = n div 2 ^ sh;
               r = n mod 2 ^ sh;
               half = 2 ^ (sh - 1);
               q' = (if half < r \<or> (r = half \<and> odd q) then q + 1 else q)
           in q' * 2 ^ sh)"

text \<open>\<open>Number(x)\<close> for a mathematical integer \<open>x\<close> (a bigint, or the digits read by parseInt).\<close>

definition toDouble :: "int \<Rightarrow> jsnum" where
  "toDouble i =
     (let m = roundDouble (nat \<bar>i\<bar>)
      in if 2 ^ 1024 \<le> m then (if i < 0 then NegInf else PosInf)
         else Num (if i < 0 then - int m else int m))"

text \<open>\<open>Number(b)\<close> for a bigint read from the contract (a Solidity unsigned integer).\<close>

definition Number_bigint :: "nat \<Rightarrow> jsnum" where
  "Number_bigint n = toDouble (int n)"

text \<open>\<open>x || 0\<close> on a number: \<open>NaN\<close> and zero are falsy.\<close>

definition orZero :: "jsnum \<Rightarrow> jsnum" where
  "orZero x = (case x of NaN \<Rightarrow> Num 0 | Num n \<Rightarrow> (if n = 0 then Num 0 else Num n) | y \<Rightarrow> y)"

definition isDigit :: "char \<Rightarrow> bool" where
  "isDigit c = (c \<in> set ''0123456789'')"

definition digitOf :: "char \<Rightarrow> nat option" where
  "digitOf c =
     (if c \<in> set ''0123456789'' then Some (of_char c - 48)
      else if c \<in> set ''abcdef'' then Some (of_char c - 87)
      else if c \<in> set ''ABCDEF'' then Some (of_char c - 55)
      else None)"

text \<open>
  The white space that \<open>parseInt\<close> skips. A character of this model is a code unit
  below 256, so the set is tab, line feed, vertical tab, form feed, carriage return,
  space and the no-break space \<open>U+00A0\<close>; the other white space of JavaScript
  (\<open>U+FEFF\<close>, \<open>U+1680\<close>, \<open>U+2000\<close> and above) has no character of this type.
\<close>

definition isWhite :: "char \<Rightarrow> bool" where
  "isWhite c =
     (c \<in> set [CHR 0x09, CHR 0x0A, CHR 0x0B, CHR 0x0C, CHR 0x0D, CHR '' '', CHR 0xA0])"

fun isPrefixOf :: "string \<Rightarrow> string \<Rightarrow> bool" where
  "isPrefixOf [] ys = True"
| "isPrefixOf (x # xs) [] = False"
| "isPrefixOf (x # xs) (y # ys) = (x = y \<and> isPrefixOf xs ys)"

text \<open>\<open>haystack.includes(needle)\<close>.\<close>

fun includes_str :: "string \<Rightarrow> string \<Rightarrow> bool" where
  "includes_str [] needle = (needle = [])"
| "includes_str (c # cs) needle = (isPrefixOf needle (c # cs) \<or> includes_str cs needle)"

fun takeDigits :: "nat \<Rightarrow> string \<Rightarrow> nat list" where
  "takeDigits R [] = []"
| "takeDigits R (c # cs) =
     (case digitOf c of
        Some d \<Rightarrow> (if d < R then d # takeDigits R cs else [])
      | None \<Rightarrow> [])"

definition fromDigits :: "nat \<Rightarrow> nat list \<Rightarrow> nat" where
  "fromDigits R ds = foldl (\<lambda>acc d. acc * R + d) 0 ds"

text \<open>
  \<open>parseInt(s)\<close> with no radix argument: leading white space is skipped, a sign is read,
  a \<open>0x\<close> prefix selects radix 16, and the longest prefix of digits is the value;
  no digit at all gives \<open>NaN\<close>. The value is the number the digits denote, rounded to
  a double (ECMAScript lets an implementation read the decimal digits after the 20th as
  zeros; this model keeps them, which differs only above \<open>10 ^ 20\<close>).
\<close>

definition parseInt :: "string \<Rightarrow> jsnum" where
  "parseInt s =
     (let s1 = dropWhile isWhite s;
          neg = (case s1 of [] \<Rightarrow> False | c # _ \<Rightarrow> c = CHR ''-'');
          s2 = (case s1 of [] \<Rightarrow> [] | c # cs \<Rightarrow> if c = CHR ''-'' \<or> c = CHR ''+'' then cs else s1);
          hex = (isPrefixOf ''0x'' s2 \<or> isPrefixOf ''0X'' s2);
          R = (if hex then 16 else 10);
          s3 = (if hex then drop 2 s2 else s2);
          ds = takeDigits R s3
      in if ds = [] then NaN
         else toDouble ((if neg then - 1 else 1) * int (fromDigits R ds)))"

text \<open>The decimal digits of a number, as a template literal prints it.\<close>

fun digits10 :: "nat \<Rightarrow> string" where
  "digits10 n =
     (if n < 10 then [''0123456789'' ! n]
      else digits10 (n div 10) @ [''0123456789'' ! (n mod 10)])"

declare digits10.simps [simp del]

text \<open>
  A value thrown by a collaborator, other than \<open>null\<close> and \<open>undefined\<close>: an
  \<open>Error\<close> carries a message, any other object or primitive has none, so that
  \<open>e.message\<close> reads \<open>undefined\<close>. \<open>null\<close> and \<open>undefined\<close> are not values of
  this type: for them \<open>e.message\<close> itself throws inside the catch blocks (lines 186
  and 239), the promise rejects, and the functions below say nothing about that case.
\<close>

datatype Thrown = Thrown (message: "string option")

definition msgIncludes :: "Thrown \<Rightarrow> string \<Rightarrow> bool" where
  "msgIncludes e s = (case message e of None \<Rightarrow> False | Some m \<Rightarrow> includes_str m s)"

text \<open>\<open>e.message || d\<close>: an absent or empty message is falsy.\<close>

definition msgOr :: "Thrown \<Rightarrow> string \<Rightarrow> string" where
  "msgOr e d = (case message e of None \<Rightarrow> d | Some m \<Rightarrow> if m = [] then d else m)"


section \<open>The dashboard's data\<close>

text \<open>
  \<^verbatim>\<open>interface SupplyChainItem\<close> (App.tsx, lines 9 to 22). Fields are prefixed because
  several records of the program share field names.
\<close>

record SupplyChainItem =
  item_id :: string
  item_name :: string
  item_encryptedValue :: string
  item_publicValue1 :: jsnum
  item_publicValue2 :: jsnum
  item_description :: string
  item_creator :: string
  item_timestamp :: jsnum
  item_isVerified :: bool
  item_decryptedValue :: jsnum
  item_location :: string
  item_status :: string

text \<open>
  What \<^verbatim>\<open>contract.getBusinessData(id)\<close> resolves to, as the dashboard reads it: the
  numeric fields are bigints of unsigned Solidity integers.
\<close>

record BusinessData =
  bd_name :: string
  bd_publicValue1 :: nat
  bd_publicValue2 :: nat
  bd_description :: string
  bd_creator :: string
  bd_timestamp :: nat
  bd_isVerified :: bool
  bd_decryptedValue :: nat

datatype ToastKind = ToastPending | ToastSuccess | ToastError

record TransactionStatus =
  ts_visible :: bool
  ts_status :: ToastKind
  ts_message :: string

record NewItemData =
  nd_name :: string
  nd_value :: string
  nd_description :: string
  nd_location :: string
  nd_status :: string

text \<open>The calls the dashboard issues to its collaborators, in the order it issues them.\<close>

datatype Call =
    CallGetContractReadOnly
  | CallGetContractWithSigner
  | CallGetAllBusinessIds
  | CallGetBusinessData string
  | CallGetEncryptedValue string
  | CallEncrypt jsnum
  | CallCreateBusinessData string
  | CallVerifyDecryption "string list"

text \<open>
  The state of the \<open>App\<close> component that the modelled functions read or write
  (the \<open>useState\<close> cells of lines 33 to 55 and the wallet of \<open>useAccount\<close>).
  A \<open>setTimeout\<close> that hides the toast is kept as its delay in \<open>timers\<close>;
  \<open>calls\<close> is a log of the external calls issued so far, kept so that a theorem can
  say that no call was made.
\<close>

record AppState =
  address :: "string option"
  isConnected :: bool
  supplyChainItems :: "SupplyChainItem list"
  showCreateModal :: bool
  creatingItem :: bool
  transactionStatus :: TransactionStatus
  newItemData :: NewItemData
  isDecrypting :: bool
  contractAddress :: string
  timers :: "nat list"
  calls :: "Call list"

record EncryptedResult =
  encryptedData :: string
  proof_bytes :: string

text \<open>
  The result of the SDK's \<open>verifyDecryption\<close>; \<open>clearValues\<close> is the object indexed by
  handle. The ABI-encoded clear values are kept as the list of values they encode.
\<close>

record DecryptionResult =
  clearValues :: "string \<rightharpoonup> nat"
  abiEncodedClearValues :: "nat list"
  decryptionProof :: string

text \<open>
  The collaborators of App.tsx whose code is not part of the sources at hand: the
  contract handles of \<^verbatim>\<open>./components/useContract\<close>, the contract's entry points and
  the hooks of \<^verbatim>\<open>../fhevm-sdk/src\<close>. They are parameters of the model. \<open>'w\<close> is the
  state of everything outside the browser (the ledger, the decryption service, the
  clock). A view call reads \<open>'w\<close>; a transaction or a service round trip returns the new
  \<open>'w\<close> together with its outcome. \<open>e_getContractReadOnly\<close> and
  \<open>e_getContractWithSigner\<close> resolve to \<open>True\<close> for a contract object and \<open>False\<close>
  for \<open>null\<close>. \<open>e_createBusinessData\<close> stands for the transaction and its
  \<open>tx.wait()\<close>. The first argument of the two transactions is the signer's address.
\<close>

record 'w Env =
  e_getContractReadOnly :: "'w \<Rightarrow> Thrown + bool"
  e_getContractWithSigner :: "'w \<Rightarrow> Thrown + bool"
  e_dateNow :: "'w \<Rightarrow> nat"
  e_getAllBusinessIds :: "'w \<Rightarrow> Thrown + string list"
  e_getBusinessData :: "'w \<Rightarrow> string \<Rightarrow> Thrown + BusinessData"
  e_getEncryptedValue :: "'w \<Rightarrow> string \<Rightarrow> Thrown + string"
  e_createBusinessData ::
    "string \<Rightarrow> string \<Rightarrow> string \<Rightarrow> string \<Rightarrow> string \<Rightarrow> nat \<Rightarrow> nat \<Rightarrow> string \<Rightarrow> 'w
       \<Rightarrow> Thrown option \<times> 'w"
  e_contractVerifyDecryption ::
    "string \<Rightarrow> string \<Rightarrow> nat list \<Rightarrow> string \<Rightarrow> 'w \<Rightarrow> Thrown option \<times> 'w"
  e_encrypt :: "string \<Rightarrow> string \<Rightarrow> jsnum \<Rightarrow> 'w \<Rightarrow> (Thrown + EncryptedResult) \<times> 'w"
  e_verifyDecryption ::
    "string list \<Rightarrow> string \<Rightarrow> (nat list \<Rightarrow> string \<Rightarrow> 'w \<Rightarrow> Thrown option \<times> 'w) \<Rightarrow> 'w
       \<Rightarrow> (Thrown + DecryptionResult) \<times> 'w"

section \<open>The dashboard's functions\<close>

definition hiddenStatus :: TransactionStatus where
  "hiddenStatus = \<lparr>ts_visible = False, ts_status = ToastPending, ts_message = []\<rparr>"

text \<open>\<open>setTransactionStatus({visible: true, status, message})\<close>.\<close>

definition setStatus :: "ToastKind \<Rightarrow> string \<Rightarrow> AppState \<Rightarrow> AppState" where
  "setStatus k msg st =
     st\<lparr>transactionStatus := \<lparr>ts_visible = True, ts_status = k, ts_message = msg\<rparr>\<rparr>"

text \<open>The same followed by \<open>setTimeout(() => setTransactionStatus(hidden), delay)\<close>.\<close>

definition notify :: "ToastKind \<Rightarrow> string \<Rightarrow> nat \<Rightarrow> AppState \<Rightarrow> AppState" where
  "notify k msg delay st = (setStatus k msg st)\<lparr>timers := timers st @ [delay]\<rparr>"

definition logCall :: "Call \<Rightarrow> AppState \<Rightarrow> AppState" where
  "logCall c st = st\<lparr>calls := calls st @ [c]\<rparr>"

text \<open>
  \<open>!isConnected || !address\<close>: the caller's address when the wallet is connected and
  the address is a non-empty string.
\<close>

definition callerAddress :: "AppState \<Rightarrow> string option" where
  "callerAddress st =
     (if \<not> isConnected st then None
      else case address st of
             None \<Rightarrow> None
           | Some a \<Rightarrow> (if a = [] then None else Some a))"

text \<open>The object pushed for one id in \<open>loadSupplyChainData\<close> (lines 118 to 131).\<close>

definition toItem :: "string \<Rightarrow> BusinessData \<Rightarrow> SupplyChainItem" where
  "toItem businessId businessData =
     \<lparr>item_id = businessId,
      item_name = bd_name businessData,
      item_encryptedValue = businessId,
      item_publicValue1 = orZero (Number_bigint (bd_publicValue1 businessData)),
      item_publicValue2 = orZero (Number_bigint (bd_publicValue2 businessData)),
      item_description = bd_description businessData,
      item_creator = bd_creator businessData,
      item_timestamp = Number_bigint (bd_timestamp businessData),
      item_isVerified = bd_isVerified businessData,
      item_decryptedValue = orZero (Number_bigint (bd_decryptedValue businessData)),
      item_location = ''Warehouse A'',
      item_status = ''in_transit''\<rparr>"

text \<open>The loop of lines 115 to 135: an id whose read throws is skipped.\<close>

fun loadItems :: "'w Env \<Rightarrow> 'w \<Rightarrow> string list \<Rightarrow> SupplyChainItem list" where
  "loadItems env w [] = []"
| "loadItems env w (businessId # rest) =
     (case e_getBusinessData env w businessId of
        Inl e \<Rightarrow> loadItems env w rest
      | Inr businessData \<Rightarrow> toItem businessId businessData # loadItems env w rest)"

definition loadFailed :: "AppState \<Rightarrow> AppState" where
  "loadFailed st = notify ToastError ''Failed to load data'' 3000 st"

text \<open>\<open>loadSupplyChainData\<close> (lines 105 to 142).\<close>

definition loadSupplyChainData :: "'w Env \<Rightarrow> 'w \<Rightarrow> AppState \<Rightarrow> AppState" where
  "loadSupplyChainData env w st =
     (if \<not> isConnected st then st
      else
        (case e_getContractReadOnly env w of
           Inl e \<Rightarrow> loadFailed (logCall CallGetContractReadOnly st)
         | Inr contract \<Rightarrow>
             (if \<not> contract then logCall CallGetContractReadOnly st
              else
                (case e_getAllBusinessIds env w of
                   Inl e \<Rightarrow>
                     loadFailed
                       (logCall CallGetAllBusinessIds (logCall CallGetContractReadOnly st))
                 | Inr businessIds \<Rightarrow>
                     st\<lparr>calls := calls st @ [CallGetContractReadOnly, CallGetAllBusinessIds]
                                  @ map CallGetBusinessData businessIds,
                        supplyChainItems := loadItems env w businessIds\<rparr>))))"

text \<open>The status code passed to the contract (lines 168 and 169).\<close>

definition statusCode :: "string \<Rightarrow> nat" where
  "statusCode s = (if s = ''manufactured'' then 1 else if s = ''in_transit'' then 2 else 3)"

definition emptyItemData :: NewItemData where
  "emptyItemData =
     \<lparr>nd_name = [], nd_value = [], nd_description = [], nd_location = [],
      nd_status = ''manufactured''\<rparr>"

text \<open>
  The catch block of \<open>createSupplyChainItem\<close> (lines 185 to 190), for a thrown value
  that is not \<open>null\<close> or \<open>undefined\<close>.
\<close>

definition createCatch :: "Thrown \<Rightarrow> AppState \<Rightarrow> AppState" where
  "createCatch e st =
     notify ToastError
       (if msgIncludes e ''user rejected transaction'' then ''Transaction rejected by user''
        else ''Submission failed: '' @ msgOr e ''Unknown error'')
       3000 st"

text \<open>
  Lines 163 to 184 of \<open>createSupplyChainItem\<close>: the transaction with its
  confirmation, then the success path.
\<close>

definition createSubmit ::
  "'w Env \<Rightarrow> string \<Rightarrow> string \<Rightarrow> EncryptedResult \<Rightarrow> 'w \<Rightarrow> AppState \<Rightarrow> AppState \<times> 'w" where
  "createSubmit env a businessId encryptedResult w st =
     (case e_createBusinessData env a businessId (nd_name (newItemData st))
             (encryptedData encryptedResult) (proof_bytes encryptedResult)
             (statusCode (nd_status (newItemData st))) 0
             (nd_description (newItemData st)) w of
        (Some e, w2) \<Rightarrow> (createCatch e (logCall (CallCreateBusinessData businessId) st), w2)
      | (None, w2) \<Rightarrow>
          ((loadSupplyChainData env w2
              (notify ToastSuccess ''Supply chain item created successfully!'' 2000
                 (logCall (CallCreateBusinessData businessId) st)))
             \<lparr>showCreateModal := False, newItemData := emptyItemData\<rparr>,
           w2))"

text \<open>Lines 158 to 161: the value, the id and the encryption.\<close>

definition createEncrypt :: "'w Env \<Rightarrow> string \<Rightarrow> 'w \<Rightarrow> AppState \<Rightarrow> AppState \<times> 'w" where
  "createEncrypt env a w st =
     (let itemValue = orZero (parseInt (nd_value (newItemData st)));
          businessId = ''item-'' @ digits10 (e_dateNow env w)
      in (case e_encrypt env (contractAddress st) a itemValue w of
            (Inl e, w1) \<Rightarrow> (createCatch e (logCall (CallEncrypt itemValue) st), w1)
          | (Inr encryptedResult, w1) \<Rightarrow>
              createSubmit env a businessId encryptedResult w1
                (logCall (CallEncrypt itemValue) st)))"

text \<open>The try block of \<open>createSupplyChainItem\<close> (lines 155 to 184) for caller \<open>a\<close>.\<close>

definition createBody :: "'w Env \<Rightarrow> string \<Rightarrow> 'w \<Rightarrow> AppState \<Rightarrow> AppState \<times> 'w" where
  "createBody env a w st =
     (case e_getContractWithSigner env w of
        Inl e \<Rightarrow> (createCatch e (logCall CallGetContractWithSigner st), w)
      | Inr contract \<Rightarrow>
          (if \<not> contract
           then (createCatch (Thrown (Some ''Failed to get contract with signer''))
                   (logCall CallGetContractWithSigner st), w)
           else createEncrypt env a w (logCall CallGetContractWithSigner st)))"

text \<open>\<open>createSupplyChainItem\<close> (lines 144 to 194).\<close>

definition createSupplyChainItem :: "'w Env \<Rightarrow> 'w \<Rightarrow> AppState \<Rightarrow> AppState \<times> 'w" where
  "createSupplyChainItem env w st =
     (case callerAddress st of
        None \<Rightarrow> (notify ToastError ''Please connect wallet first'' 3000 st, w)
      | Some a \<Rightarrow>
          (case createBody env a w
                  (setStatus ToastPending
                     ''Creating supply chain item with FHE encryption...''
                     (st\<lparr>creatingItem := True\<rparr>)) of
             (st2, w2) \<Rightarrow> (st2\<lparr>creatingItem := False\<rparr>, w2)))"

text \<open>
  The catch block of \<open>decryptItemData\<close> (lines 239 to 249), for a thrown value that
  is not \<open>null\<close> or \<open>undefined\<close>.
\<close>

definition decryptCatch ::
  "'w Env \<Rightarrow> Thrown \<Rightarrow> 'w \<Rightarrow> AppState \<Rightarrow> jsnum option \<times> AppState \<times> 'w" where
  "decryptCatch env e w st =
     (if msgIncludes e ''Data already verified''
      then (None,
            loadSupplyChainData env w
              (notify ToastSuccess ''Data is already verified on-chain'' 2000 st),
            w)
      else (None,
            notify ToastError (''Decryption failed: '' @ msgOr e ''Unknown error'') 3000 st,
            w))"

text \<open>
  Lines 221 to 237 of \<open>decryptItemData\<close>: the SDK's \<open>verifyDecryption\<close> with the
  callback that submits to the contract, then the success path. \<open>None\<close> stands for
  \<open>null\<close>; a handle missing from \<open>clearValues\<close> reads \<open>undefined\<close>, whose
  \<open>Number\<close> is \<open>NaN\<close>.
\<close>

definition decryptSubmit ::
  "'w Env \<Rightarrow> string \<Rightarrow> string \<Rightarrow> string \<Rightarrow> 'w \<Rightarrow> AppState
     \<Rightarrow> jsnum option \<times> AppState \<times> 'w" where
  "decryptSubmit env a businessId encryptedValueHandle w st =
     (case e_verifyDecryption env [encryptedValueHandle] (contractAddress st)
             (\<lambda>abiEncoded decProof.
                e_contractVerifyDecryption env a businessId abiEncoded decProof)
             w of
        (Inl e, w1) \<Rightarrow>
          decryptCatch env e w1 (logCall (CallVerifyDecryption [encryptedValueHandle]) st)
      | (Inr result, w1) \<Rightarrow>
          (Some (case clearValues result encryptedValueHandle of
                   None \<Rightarrow> NaN
                 | Some v \<Rightarrow> Number_bigint v),
           notify ToastSuccess ''Data decrypted and verified successfully!'' 2000
             (loadSupplyChainData env w1
                (setStatus ToastPending ''Verifying decryption on-chain...''
                   (logCall (CallVerifyDecryption [encryptedValueHandle]) st))),
           w1))"

text \<open>Lines 216 to 219: the signer's contract and the handle.\<close>

definition decryptUnverified ::
  "'w Env \<Rightarrow> string \<Rightarrow> string \<Rightarrow> 'w \<Rightarrow> AppState \<Rightarrow> jsnum option \<times> AppState \<times> 'w" where
  "decryptUnverified env a businessId w st =
     (case e_getContractWithSigner env w of
        Inl e \<Rightarrow> decryptCatch env e w (logCall CallGetContractWithSigner st)
      | Inr contractWrite \<Rightarrow>
          (if \<not> contractWrite then (None, logCall CallGetContractWithSigner st, w)
           else
             (case e_getEncryptedValue env w businessId of
                Inl e \<Rightarrow>
                  decryptCatch env e w
                    (logCall (CallGetEncryptedValue businessId)
                       (logCall CallGetContractWithSigner st))
              | Inr encryptedValueHandle \<Rightarrow>
                  decryptSubmit env a businessId encryptedValueHandle w
                    (logCall (CallGetEncryptedValue businessId)
                       (logCall CallGetContractWithSigner st)))))"

text \<open>The try block of \<open>decryptItemData\<close> (lines 204 to 237) for caller \<open>a\<close>.\<close>

definition decryptBody ::
  "'w Env \<Rightarrow> string \<Rightarrow> string \<Rightarrow> 'w \<Rightarrow> AppState \<Rightarrow> jsnum option \<times> AppState \<times> 'w" where
  "decryptBody env a businessId w st =
     (case e_getContractReadOnly env w of
        Inl e \<Rightarrow> decryptCatch env e w (logCall CallGetContractReadOnly st)
      | Inr contractRead \<Rightarrow>
          (if \<not> contractRead then (None, logCall CallGetContractReadOnly st, w)
           else
             (case e_getBusinessData env w businessId of
                Inl e \<Rightarrow>
                  decryptCatch env e w
                    (logCall (CallGetBusinessData businessId)
                       (logCall CallGetContractReadOnly st))
              | Inr businessData \<Rightarrow>
                  (if bd_isVerified businessData
                   then (Some (orZero (Number_bigint (bd_decryptedValue businessData))),
                         notify ToastSuccess ''Data already verified on-chain'' 2000
                           (logCall (CallGetBusinessData businessId)
                              (logCall CallGetContractReadOnly st)),
                         w)
                   else decryptUnverified env a businessId w
                          (logCall (CallGetBusinessData businessId)
                             (logCall CallGetContractReadOnly st))))))"

text \<open>\<open>decryptItemData\<close> (lines 196 to 253).\<close>

definition decryptItemData ::
  "'w Env \<Rightarrow> string \<Rightarrow> 'w \<Rightarrow> AppState \<Rightarrow> jsnum option \<times> AppState \<times> 'w" where
  "decryptItemData env businessId w st =
     (case callerAddress st of
        None \<Rightarrow> (None, notify ToastError ''Please connect wallet first'' 3000 st, w)
      | Some a \<Rightarrow>
          (case decryptBody env a businessId w (st\<lparr>isDecrypting := True\<rparr>) of
             (r, st1, w1) \<Rightarrow> (r, st1\<lparr>isDecrypting := False\<rparr>, w1)))"

text \<open>
  \<open>handleChange\<close> of \<open>CreateItemModal\<close> (lines 546 to 554): \<open>fieldName\<close> is the
  \<open>name\<close> attribute of the input that changed, \<open>v\<close> its new value.
\<close>

definition setField :: "string \<Rightarrow> string \<Rightarrow> NewItemData \<Rightarrow> NewItemData" where
  "setField fieldName v itemData =
     (if fieldName = ''name'' then itemData\<lparr>nd_name := v\<rparr>
      else if fieldName = ''value'' then itemData\<lparr>nd_value := v\<rparr>
      else if fieldName = ''description'' then itemData\<lparr>nd_description := v\<rparr>
      else if fieldName = ''location'' then itemData\<lparr>nd_location := v\<rparr>
      else if fieldName = ''status'' then itemData\<lparr>nd_status := v\<rparr>
      else itemData)"

definition handleChange :: "string \<Rightarrow> string \<Rightarrow> NewItemData \<Rightarrow> NewItemData" where
  "handleChange fieldName v itemData =
     (if fieldName = ''value'' then setField fieldName (filter isDigit v) itemData
      else setField fieldName v itemData)"

text \<open>
  The footer of an item card (lines 484 to 493): the label (without its pictograph),
  and the decrypted value when it is rendered.
\<close>

definition cardFooter :: "SupplyChainItem \<Rightarrow> string \<times> jsnum option" where
  "cardFooter item =
     (if item_isVerified item then (''Verified'', Some (item_decryptedValue item))
      else (''Encrypted'', None))"

text \<open>
  The \<open>disabled\<close> attribute of the submit button of \<open>CreateItemModal\<close> (line 630):
  \<open>creating || isEncrypting || !itemData.name || !itemData.value\<close>, where
  \<open>isEncrypting\<close> is the flag of the SDK's \<open>useEncrypt\<close> hook.
\<close>

definition submitDisabled :: "bool \<Rightarrow> bool \<Rightarrow> NewItemData \<Rightarrow> bool" where
  "submitDisabled creating isEncrypting itemData =
     (creating \<or> isEncrypting \<or> nd_name itemData = [] \<or> nd_value itemData = [])"

text \<open>
  The writers of the cell \<open>newItemData\<close>. It starts as the empty form (lines 42 to
  48); \<open>handleChange\<close> is its only writer while the modal is open (line 507 hands
  \<open>setNewItemData\<close> to the modal, which calls it at lines 550 and 552 only); a
  successful creation puts the empty form back (line 184). \<open>Change fieldName v\<close> is a
  change event of the input named \<open>fieldName\<close> whose \<open>e.target.value\<close> is \<open>v\<close>, any
  string. \<open>formAfter events\<close> is the cell after a sequence of these events.
\<close>

datatype FormEvent = Change string string | Reset

fun formStep :: "FormEvent \<Rightarrow> NewItemData \<Rightarrow> NewItemData" where
  "formStep (Change fieldName v) itemData = handleChange fieldName v itemData"
| "formStep Reset itemData = emptyItemData"

definition formAfter :: "FormEvent list \<Rightarrow> NewItemData" where
  "formAfter events = foldl (\<lambda>itemData event. formStep event itemData) emptyItemData events"


section \<open>The record store and the confidential-compute provider\<close>

text \<open>
  The ledger contract and the FHE SDK are not among the sources. The definitions of
  this section are written from the specification (sections 3, 4.1 and 4.2) and say so.
\<close>

text \<open>Modelled from the spec: the status of a record (section 3).\<close>

datatype Status = Created | VerificationPending | Verified

text \<open>
  Modelled from the spec: the public attributes of a record (section 3): name,
  description, lifecycle tag, and the second public number that \<open>createBusinessData\<close>
  takes.
\<close>

record PublicAttributes =
  pa_name :: string
  pa_description :: string
  pa_tag :: nat
  pa_aux :: nat

text \<open>
  Modelled from the spec: the Record of section 3 (the ledger contract that stores it is
  missing). A clear value is a natural number: the provider's domain is non-negative.
\<close>

record Record =
  rec_id :: string
  ownerId :: string
  publicAttributes :: PublicAttributes
  ciphertextHandle :: string
  status :: Status
  clearValue :: "nat option"
  version :: nat
  createdAt :: nat

type_synonym RecordStore = "string \<rightharpoonup> Record"

text \<open>
  Modelled from the spec: the errors of RecordStore (section 4.1). The spec names
  \<open>ConflictError\<close> and \<open>CasError::VersionConflict\<close>, which carries the current record;
  a rejected transition and an unknown id "fail" without a name, so the two other
  constructors are this model's names.
\<close>

datatype CasError = VersionConflict Record | TransitionRejected Record | NoSuchRecord

datatype ConflictError = ConflictError

text \<open>
  Modelled from the spec: \<open>RecordStore.insert\<close> (section 4.1), "fails if id already
  exists; otherwise stores at version = 0, status = Created".
\<close>

definition store_insert :: "Record \<Rightarrow> RecordStore \<Rightarrow> (ConflictError + string) \<times> RecordStore" where
  "store_insert r s =
     (case s (rec_id r) of
        Some old \<Rightarrow> (Inl ConflictError, s)
      | None \<Rightarrow> (Inr (rec_id r), s(rec_id r \<mapsto> r\<lparr>version := 0, status := Created\<rparr>)))"

text \<open>Modelled from the spec: \<open>RecordStore.get\<close> (section 4.1), a read-only snapshot.\<close>

definition store_get :: "RecordStore \<Rightarrow> string \<Rightarrow> Record option" where
  "store_get s i = s i"

text \<open>
  Modelled from the spec: invariant 3 of section 3, "status transitions only forward
  along Created, VerificationPending, Verified": the two steps of the chain.
\<close>

definition forwardStep :: "Status \<Rightarrow> Status \<Rightarrow> bool" where
  "forwardStep a b =
     ((a = Created \<and> b = VerificationPending) \<or> (a = VerificationPending \<and> b = Verified))"

text \<open>
  Modelled from the spec: a mutation is "a pure function producing a new
  status/clearValue" (section 4.1).
\<close>

type_synonym Mutation = "Record \<Rightarrow> Status \<times> nat option"

text \<open>
  Modelled from the spec: \<open>RecordStore.compareAndSet\<close> (section 4.1): it "applies
  mutation only if the stored version equals expectedVersion and the resulting status
  transition is forward-only; on success increments version and returns the new record;
  on mismatch returns CasError::VersionConflict carrying the current record".
\<close>

definition compareAndSet ::
  "string \<Rightarrow> nat \<Rightarrow> Mutation \<Rightarrow> RecordStore \<Rightarrow> (CasError + Record) \<times> RecordStore" where
  "compareAndSet i expectedVersion mutation s =
     (case s i of
        None \<Rightarrow> (Inl NoSuchRecord, s)
      | Some r \<Rightarrow>
          (if version r \<noteq> expectedVersion then (Inl (VersionConflict r), s)
           else if forwardStep (status r) (fst (mutation r))
           then (Inr (r\<lparr>status := fst (mutation r), clearValue := snd (mutation r),
                        version := version r + 1\<rparr>),
                 s(i \<mapsto> r\<lparr>status := fst (mutation r), clearValue := snd (mutation r),
                             version := version r + 1\<rparr>))
           else (Inl (TransitionRejected r), s)))"

text \<open>
  Modelled from the spec: the two mutations the verification protocol submits
  (section 4.3, steps 2 and 5): \<open>status=VerificationPending\<close>, and
  \<open>status=Verified, clearValue\<close>.
\<close>

definition toPending :: Mutation where
  "toPending r = (VerificationPending, clearValue r)"

definition toVerified :: "nat \<Rightarrow> Mutation" where
  "toVerified v r = (Verified, Some v)"

text \<open>The position of a status in the chain.\<close>

fun rank :: "Status \<Rightarrow> nat" where
  "rank Created = 0"
| "rank VerificationPending = 1"
| "rank Verified = 2"

text \<open>
  Operations on a store, for statements about every sequence of them: any insert and
  any compare-and-set, with any mutation.
\<close>

datatype StoreOp = OpInsert Record | OpCas string nat Mutation

fun applyOp :: "StoreOp \<Rightarrow> RecordStore \<Rightarrow> RecordStore" where
  "applyOp (OpInsert r) s = snd (store_insert r s)"
| "applyOp (OpCas i v m) s = snd (compareAndSet i v m s)"

fun runOps :: "StoreOp list \<Rightarrow> RecordStore \<Rightarrow> RecordStore" where
  "runOps [] s = s"
| "runOps (x # xs) s = runOps xs (applyOp x s)"

text \<open>The status of record \<open>i\<close> read before the first operation and after each one.\<close>

fun observed :: "string \<Rightarrow> StoreOp list \<Rightarrow> RecordStore \<Rightarrow> Status option list" where
  "observed i [] s = [map_option status (store_get s i)]"
| "observed i (x # xs) s = map_option status (store_get s i) # observed i xs (applyOp x s)"

text \<open>A sequence of reads respects the chain: each read repeats the last one or steps forward.\<close>

fun respectsChain :: "Status option list \<Rightarrow> bool" where
  "respectsChain (Some a # Some b # rest) =
     ((a = b \<or> forwardStep a b) \<and> respectsChain (Some b # rest))"
| "respectsChain (Some a # None # rest) = False"
| "respectsChain (None # rest) = respectsChain rest"
| "respectsChain [x] = True"
| "respectsChain [] = True"

text \<open>Two consecutive reads of a status that respect the chain.\<close>

fun stepOk :: "Status option \<Rightarrow> Status option \<Rightarrow> bool" where
  "stepOk None y = True"
| "stepOk (Some a) None = False"
| "stepOk (Some a) (Some b) = (a = b \<or> forwardStep a b)"

text \<open>
  Modelled from the spec: the operations the lifecycle performs on the store
  (sections 3 and 4.3): a record is created with no clear value, a verification request
  asks for \<open>VerificationPending\<close>, a proof submission asks for \<open>Verified\<close> with the
  clear value. Each may be submitted for any id, with any expected version.
\<close>

datatype LifecycleOp =
    Create string string PublicAttributes string nat
  | RequestPending string nat
  | CommitVerified string nat nat

definition newRecord :: "string \<Rightarrow> string \<Rightarrow> PublicAttributes \<Rightarrow> string \<Rightarrow> nat \<Rightarrow> Record" where
  "newRecord i owner attrs handle t =
     \<lparr>rec_id = i, ownerId = owner, publicAttributes = attrs, ciphertextHandle = handle,
      status = Created, clearValue = None, version = 0, createdAt = t\<rparr>"

fun toStoreOp :: "LifecycleOp \<Rightarrow> StoreOp" where
  "toStoreOp (Create i owner attrs handle t) = OpInsert (newRecord i owner attrs handle t)"
| "toStoreOp (RequestPending i v) = OpCas i v toPending"
| "toStoreOp (CommitVerified i v x) = OpCas i v (toVerified x)"

text \<open>Invariant 2 of section 3, for one record and for a store.\<close>

definition clearOnlyWhenVerified :: "Record \<Rightarrow> bool" where
  "clearOnlyWhenVerified r = (clearValue r = None \<or> status r = Verified)"

definition storeWellFormed :: "RecordStore \<Rightarrow> bool" where
  "storeWellFormed s = (\<forall>i r. s i = Some r \<longrightarrow> clearOnlyWhenVerified r)"

section \<open>A ledger and a provider for the dashboard\<close>

text \<open>
  Modelled from the spec: the world outside the browser (the ledger contract and the
  FHE service are missing), assembled from the store and the provider of the
  specification: the records and the order of their ids, the provider's table of the
  plaintext behind each handle, the bound of its domain, the contexts it serves, the
  clock and the contract's address.
\<close>

record World =
  store :: RecordStore
  idOrder :: "string list"
  plaintexts :: "string \<rightharpoonup> nat"
  nextHandle :: nat
  domainBound :: nat
  authorized :: "string list"
  clock :: nat
  ledgerAddress :: string

text \<open>
  Modelled from the spec: \<open>ConfidentialComputeProvider.encrypt\<close> (section 4.2; the FHE
  SDK is missing): "deterministic failure (EncryptionError) on malformed input;
  otherwise produces a handle usable later for decryption and a proof of correct
  encryption bound to recipientContext". An input is well formed when it is an integer
  of the domain, \<open>0 \<le> n < domainBound\<close>.
\<close>

definition inclusionProof :: "string \<Rightarrow> string \<Rightarrow> string" where
  "inclusionProof recipientContext handle = ''inc|'' @ recipientContext @ ''|'' @ handle"

definition provider_encrypt ::
  "jsnum \<Rightarrow> string \<Rightarrow> World \<Rightarrow> (Thrown + string \<times> string) \<times> World" where
  "provider_encrypt x recipientContext w =
     (case x of
        Num n \<Rightarrow>
          (if 0 \<le> n \<and> n < int (domainBound w)
           then (let handle = ''0x'' @ digits10 (nextHandle w)
                 in (Inr (handle, inclusionProof recipientContext handle),
                     w\<lparr>plaintexts := (plaintexts w)(handle \<mapsto> nat n),
                       nextHandle := nextHandle w + 1\<rparr>))
           else (Inl (Thrown (Some ''EncryptionError'')), w))
      | _ \<Rightarrow> (Inl (Thrown (Some ''EncryptionError'')), w))"

text \<open>
  Modelled from the spec: the decryption proof of \<open>requestClearValue\<close> and
  \<open>verifyProof\<close> (section 4.2), "pure, fast, local check": a proof names the context,
  the handles and their clear values, and checking it compares it with what is claimed.
\<close>

fun proofBody :: "string list \<Rightarrow> nat list \<Rightarrow> string" where
  "proofBody (h # hs) (v # vs) = ''|'' @ h @ ''='' @ digits10 v @ proofBody hs vs"
| "proofBody hs vs = []"

definition decryptionProofFor :: "string \<Rightarrow> string list \<Rightarrow> nat list \<Rightarrow> string" where
  "decryptionProofFor ctx handles vals = ''dec|'' @ ctx @ proofBody handles vals"

definition verifyProof :: "string \<Rightarrow> string list \<Rightarrow> nat list \<Rightarrow> string \<Rightarrow> bool" where
  "verifyProof decProof handles vals ctx =
     (length handles = length vals \<and> decProof = decryptionProofFor ctx handles vals)"

text \<open>
  Modelled from the spec: \<open>ConfidentialComputeProvider.requestClearValue\<close>
  (section 4.2): it "fails with DecryptionError if any handle is unknown or the context
  is unauthorized", and otherwise gives the clear value of each handle and a proof.
\<close>

fun lookupAll :: "(string \<rightharpoonup> nat) \<Rightarrow> string list \<Rightarrow> nat list option" where
  "lookupAll t [] = Some []"
| "lookupAll t (h # hs) =
     (case t h of
        None \<Rightarrow> None
      | Some v \<Rightarrow> (case lookupAll t hs of None \<Rightarrow> None | Some vs \<Rightarrow> Some (v # vs)))"

definition requestClearValue ::
  "string list \<Rightarrow> string \<Rightarrow> World \<Rightarrow> Thrown + DecryptionResult" where
  "requestClearValue handles ctx w =
     (if ctx \<notin> set (authorized w) then Inl (Thrown (Some ''DecryptionError''))
      else
        (case lookupAll (plaintexts w) handles of
           None \<Rightarrow> Inl (Thrown (Some ''DecryptionError''))
         | Some vals \<Rightarrow>
             Inr \<lparr>clearValues = map_of (zip handles vals),
                  abiEncodedClearValues = vals,
                  decryptionProof = decryptionProofFor ctx handles vals\<rparr>))"

text \<open>
  Modelled from the spec: the contract's \<open>createBusinessData\<close> is
  \<open>RecordStore.insert\<close> of a new record (sections 4.1 and 4.4; the contract is
  missing). The signer is the owner and the clock gives \<open>createdAt\<close>; an id that
  exists reverts, which the caller sees as a thrown error.
\<close>

definition ledger_createBusinessData ::
  "string \<Rightarrow> string \<Rightarrow> string \<Rightarrow> string \<Rightarrow> string \<Rightarrow> nat \<Rightarrow> nat \<Rightarrow> string \<Rightarrow> World
     \<Rightarrow> Thrown option \<times> World" where
  "ledger_createBusinessData sender businessId itemName handle inputProof tag aux descr w =
     (case store_insert
             (newRecord businessId sender
                \<lparr>pa_name = itemName, pa_description = descr, pa_tag = tag, pa_aux = aux\<rparr>
                handle (clock w))
             (store w) of
        (Inl err, s) \<Rightarrow> (Some (Thrown (Some ''execution reverted: ConflictError'')), w)
      | (Inr i, s) \<Rightarrow> (None, w\<lparr>store := s, idOrder := idOrder w @ [i]\<rparr>))"

text \<open>
  Modelled from the spec: the record as \<open>getBusinessData\<close> shows it (sections 3 and
  6: "any serialization used at these boundaries must preserve the field set"):
  \<open>isVerified\<close> is \<open>status = Verified\<close>, and \<open>decryptedValue\<close> is the clear value, zero
  while there is none.
\<close>

definition viewOf :: "Record \<Rightarrow> BusinessData" where
  "viewOf r =
     \<lparr>bd_name = pa_name (publicAttributes r),
      bd_publicValue1 = pa_tag (publicAttributes r),
      bd_publicValue2 = pa_aux (publicAttributes r),
      bd_description = pa_description (publicAttributes r),
      bd_creator = ownerId r,
      bd_timestamp = createdAt r,
      bd_isVerified = (status r = Verified),
      bd_decryptedValue = (case clearValue r of None \<Rightarrow> 0 | Some v \<Rightarrow> v)\<rparr>"

definition ledger_getBusinessData :: "World \<Rightarrow> string \<Rightarrow> Thrown + BusinessData" where
  "ledger_getBusinessData w businessId =
     (case store_get (store w) businessId of
        None \<Rightarrow> Inl (Thrown (Some ''execution reverted: NotFound''))
      | Some r \<Rightarrow> Inr (viewOf r))"

definition ledger_getEncryptedValue :: "World \<Rightarrow> string \<Rightarrow> Thrown + string" where
  "ledger_getEncryptedValue w businessId =
     (case store_get (store w) businessId of
        None \<Rightarrow> Inl (Thrown (Some ''execution reverted: NotFound''))
      | Some r \<Rightarrow> Inr (ciphertextHandle r))"

text \<open>
  Modelled from the spec: the contract's \<open>verifyDecryption\<close>, the "ledger-side
  equivalent" that accepts or rejects a proof submission (sections 3, 4.2 and 4.3). One
  transaction runs the store's part of the protocol: a record that is already
  \<open>Verified\<close> rejects the submission (the error text is the one App.tsx looks for,
  line 240); an invalid proof rejects it and leaves the record as it is (step 4); a
  record still \<open>Created\<close> is first moved to \<open>VerificationPending\<close> (step 2); then
  \<open>compareAndSet\<close> commits \<open>Verified\<close> with the clear value (step 5).
\<close>

definition ledger_commit :: "string \<Rightarrow> Record \<Rightarrow> nat \<Rightarrow> World \<Rightarrow> Thrown option \<times> World" where
  "ledger_commit businessId r v w =
     (case compareAndSet businessId (version r) (toVerified v) (store w) of
        (Inl err, s) \<Rightarrow> (Some (Thrown (Some ''execution reverted: CasError'')), w)
      | (Inr r2, s) \<Rightarrow> (None, w\<lparr>store := s\<rparr>))"

definition ledger_verifyDecryption ::
  "string \<Rightarrow> string \<Rightarrow> nat list \<Rightarrow> string \<Rightarrow> World \<Rightarrow> Thrown option \<times> World" where
  "ledger_verifyDecryption sender businessId vals decProof w =
     (case store_get (store w) businessId of
        None \<Rightarrow> (Some (Thrown (Some ''execution reverted: NotFound'')), w)
      | Some r \<Rightarrow>
          (if status r = Verified
           then (Some (Thrown (Some ''execution reverted: Data already verified'')), w)
           else if \<not> verifyProof decProof [ciphertextHandle r] vals (ledgerAddress w)
           then (Some (Thrown (Some ''execution reverted: ProofVerificationError'')), w)
           else if status r = Created
           then (case compareAndSet businessId (version r) toPending (store w) of
                   (Inl err, s) \<Rightarrow> (Some (Thrown (Some ''execution reverted: CasError'')), w)
                 | (Inr r1, s) \<Rightarrow> ledger_commit businessId r1 (hd vals) (w\<lparr>store := s\<rparr>))
           else ledger_commit businessId r (hd vals) w))"

text \<open>
  Modelled from the spec: the SDK's hooks over the provider (section 4.2 and steps 3 to
  5 of section 4.3). \<open>sdk_verifyDecryption\<close> requests the clear values and hands them
  with the proof to the caller's callback. The request "may suspend for an external
  round trip": \<open>others\<close> is what the other stakeholders do to the world in the
  meantime.
\<close>

definition sdk_encrypt ::
  "string \<Rightarrow> string \<Rightarrow> jsnum \<Rightarrow> World \<Rightarrow> (Thrown + EncryptedResult) \<times> World" where
  "sdk_encrypt contractAddr userAddr x w =
     (case provider_encrypt x (contractAddr @ ''/'' @ userAddr) w of
        (Inl e, w1) \<Rightarrow> (Inl e, w1)
      | (Inr (handle, incProof), w1) \<Rightarrow>
          (Inr \<lparr>encryptedData = handle, proof_bytes = incProof\<rparr>, w1))"

definition sdk_verifyDecryption ::
  "(World \<Rightarrow> World) \<Rightarrow> string list \<Rightarrow> string
     \<Rightarrow> (nat list \<Rightarrow> string \<Rightarrow> World \<Rightarrow> Thrown option \<times> World) \<Rightarrow> World
     \<Rightarrow> (Thrown + DecryptionResult) \<times> World" where
  "sdk_verifyDecryption others handles contractAddr callback w =
     (case requestClearValue handles contractAddr (others w) of
        Inl e \<Rightarrow> (Inl e, others w)
      | Inr result \<Rightarrow>
          (case callback (abiEncodedClearValues result) (decryptionProof result) (others w) of
             (Some e, w2) \<Rightarrow> (Inl e, w2)
           | (None, w2) \<Rightarrow> (Inr result, w2)))"

text \<open>The dashboard's collaborators over this world.\<close>

definition ledgerEnv :: "(World \<Rightarrow> World) \<Rightarrow> World Env" where
  "ledgerEnv others =
     \<lparr>e_getContractReadOnly = (\<lambda>w. Inr True),
      e_getContractWithSigner = (\<lambda>w. Inr True),
      e_dateNow = clock,
      e_getAllBusinessIds = (\<lambda>w. Inr (idOrder w)),
      e_getBusinessData = ledger_getBusinessData,
      e_getEncryptedValue = ledger_getEncryptedValue,
      e_createBusinessData = ledger_createBusinessData,
      e_contractVerifyDecryption = ledger_verifyDecryption,
      e_encrypt = sdk_encrypt,
      e_verifyDecryption = sdk_verifyDecryption others\<rparr>"

text \<open>A world with no record, and a dashboard whose wallet is connected.\<close>

definition world0 :: World where
  "world0 =
     \<lparr>store = Map.empty, idOrder = [], plaintexts = Map.empty, nextHandle = 0,
      domainBound = 2 ^ 32, authorized = [''0xC0''], clock = 7, ledgerAddress = ''0xC0''\<rparr>"

definition app0 :: "string \<Rightarrow> string \<Rightarrow> AppState" where
  "app0 user v =
     \<lparr>address = Some user, isConnected = True, supplyChainItems = [],
      showCreateModal = True, creatingItem = False, transactionStatus = hiddenStatus,
      newItemData = \<lparr>nd_name = ''crate'', nd_value = v, nd_description = ''steel'',
                     nd_location = [], nd_status = ''in_transit''\<rparr>,
      isDecrypting = False, contractAddress = ''0xC0'', timers = [], calls = []\<rparr>"

text \<open>
  The same dashboard with the create form as a sequence of form events leaves it, and
  the events of a user who names the item and types \<open>-5\<close> into the value field.
\<close>

definition appTyped :: "string \<Rightarrow> FormEvent list \<Rightarrow> AppState" where
  "appTyped user events = (app0 user [])\<lparr>newItemData := formAfter events\<rparr>"

definition typedMinusFive :: "FormEvent list" where
  "typedMinusFive = [Change ''name'' ''crate'', Change ''value'' ''-5'']"

text \<open>The events that fill the form of \<open>app0 user ''42''\<close>; the \<open>x\<close> is dropped.\<close>

definition typedFortyTwo :: "FormEvent list" where
  "typedFortyTwo =
     [Change ''name'' ''crate'', Change ''value'' ''4x2'', Change ''description'' ''steel'',
      Change ''status'' ''in_transit'']"

text \<open>Calling \<open>decryptItemData\<close> for the same id \<open>n\<close> times in a row; the results in order.\<close>

fun repeatDecrypt ::
  "'w Env \<Rightarrow> string \<Rightarrow> nat \<Rightarrow> 'w \<Rightarrow> AppState \<Rightarrow> jsnum option list \<times> AppState \<times> 'w" where
  "repeatDecrypt env businessId 0 w st = ([], st, w)"
| "repeatDecrypt env businessId (Suc n) w st =
     (case decryptItemData env businessId w st of
        (r, st1, w1) \<Rightarrow>
          (case repeatDecrypt env businessId n w1 st1 of
             (rs, st2, w2) \<Rightarrow> (r # rs, st2, w2)))"

text \<open>A world whose record \<open>item-7\<close> has been verified with the clear value 42.\<close>

definition worldVerified :: World where
  "worldVerified =
     world0\<lparr>store :=
              [''item-7'' \<mapsto>
                 \<lparr>rec_id = ''item-7'', ownerId = ''0xA1'',
                  publicAttributes =
                    \<lparr>pa_name = ''crate'', pa_description = ''steel'', pa_tag = 2, pa_aux = 0\<rparr>,
                  ciphertextHandle = ''0x0'', status = Verified, clearValue = Some 42,
                  version = 2, createdAt = 7\<rparr>],
            idOrder := [''item-7''],
            plaintexts := [''0x0'' \<mapsto> 42],
            nextHandle := 1\<rparr>"

text \<open>
  The worlds on the way to \<open>worldVerified\<close>: after the provider has encrypted 42, and
  after the record \<open>item-7\<close> has been created for the handle.
\<close>

definition worldEncrypted :: World where
  "worldEncrypted = world0\<lparr>plaintexts := [''0x0'' \<mapsto> 42], nextHandle := 1\<rparr>"

definition worldCreated :: World where
  "worldCreated =
     worldEncrypted
       \<lparr>store :=
          [''item-7'' \<mapsto>
             newRecord ''item-7'' ''0xA1''
               \<lparr>pa_name = ''crate'', pa_description = ''steel'', pa_tag = 2, pa_aux = 0\<rparr>
               ''0x0'' 7],
        idOrder := [''item-7'']\<rparr>"

text \<open>Another stakeholder, \<open>0xB2\<close>, runs a whole verification of \<open>item-7\<close>.\<close>

definition otherVerifies :: "World \<Rightarrow> World" where
  "otherVerifies w =
     snd (snd (decryptItemData (ledgerEnv id) ''item-7'' w (app0 ''0xB2'' [])))"

text \<open>A store with one record, as \<open>create\<close> leaves it, and the steps of its lifecycle.\<close>

definition noAttributes :: PublicAttributes where
  "noAttributes = \<lparr>pa_name = ''crate'', pa_description = [], pa_tag = 1, pa_aux = 0\<rparr>"

definition storeCreated :: RecordStore where
  "storeCreated = [''r1'' \<mapsto> newRecord ''r1'' ''0xA1'' noAttributes ''0x0'' 7]"

definition lifecycle :: "LifecycleOp list" where
  "lifecycle =
     [Create ''r1'' ''0xA1'' noAttributes ''0x0'' 7,
      RequestPending ''r1'' 0,
      CommitVerified ''r1'' 1 42]"

text \<open>A mutation that asks for the first status again.\<close>

definition backToCreated :: Mutation where
  "backToCreated r = (Created, None)"

section \<open>Concurrent verification requests\<close>


text \<open>
  \<open>decryptItemData\<close> awaits the SDK's \<open>verifyDecryption\<close> (line 221), whose request
  may stay suspended while other callers act. The function is cut at that await:
  \<open>decryptStart\<close> is lines 197 to 219 and either returns or is left awaiting with the
  caller's address, the handle and the component's state; \<open>decryptResume\<close> is lines
  221 to 253. The lemma \<open>decrypt_split\<close> below shows that the two halves run one after
  the other are \<open>decryptItemData\<close>.
\<close>

datatype Progress = Returned "jsnum option" AppState | Awaiting string string AppState

definition returned :: "jsnum option \<times> AppState \<times> 'w \<Rightarrow> Progress" where
  "returned x = (case x of (r, st, w) \<Rightarrow> Returned r (st\<lparr>isDecrypting := False\<rparr>))"

definition startUnverified :: "'w Env \<Rightarrow> string \<Rightarrow> string \<Rightarrow> 'w \<Rightarrow> AppState \<Rightarrow> Progress" where
  "startUnverified env a businessId w st =
     (case e_getContractWithSigner env w of
        Inl e \<Rightarrow> returned (decryptCatch env e w (logCall CallGetContractWithSigner st))
      | Inr contractWrite \<Rightarrow>
          (if \<not> contractWrite
           then returned (None, logCall CallGetContractWithSigner st, w)
           else
             (case e_getEncryptedValue env w businessId of
                Inl e \<Rightarrow>
                  returned
                    (decryptCatch env e w
                       (logCall (CallGetEncryptedValue businessId)
                          (logCall CallGetContractWithSigner st)))
              | Inr encryptedValueHandle \<Rightarrow>
                  Awaiting a encryptedValueHandle
                    (logCall (CallGetEncryptedValue businessId)
                       (logCall CallGetContractWithSigner st)))))"

definition startBody :: "'w Env \<Rightarrow> string \<Rightarrow> string \<Rightarrow> 'w \<Rightarrow> AppState \<Rightarrow> Progress" where
  "startBody env a businessId w st =
     (case e_getContractReadOnly env w of
        Inl e \<Rightarrow> returned (decryptCatch env e w (logCall CallGetContractReadOnly st))
      | Inr contractRead \<Rightarrow>
          (if \<not> contractRead then returned (None, logCall CallGetContractReadOnly st, w)
           else
             (case e_getBusinessData env w businessId of
                Inl e \<Rightarrow>
                  returned
                    (decryptCatch env e w
                       (logCall (CallGetBusinessData businessId)
                          (logCall CallGetContractReadOnly st)))
              | Inr businessData \<Rightarrow>
                  (if bd_isVerified businessData
                   then returned
                          (Some (orZero (Number_bigint (bd_decryptedValue businessData))),
                           notify ToastSuccess ''Data already verified on-chain'' 2000
                             (logCall (CallGetBusinessData businessId)
                                (logCall CallGetContractReadOnly st)),
                           w)
                   else startUnverified env a businessId w
                          (logCall (CallGetBusinessData businessId)
                             (logCall CallGetContractReadOnly st))))))"

definition decryptStart :: "'w Env \<Rightarrow> string \<Rightarrow> 'w \<Rightarrow> AppState \<Rightarrow> Progress" where
  "decryptStart env businessId w st =
     (case callerAddress st of
        None \<Rightarrow> Returned None (notify ToastError ''Please connect wallet first'' 3000 st)
      | Some a \<Rightarrow> startBody env a businessId w (st\<lparr>isDecrypting := True\<rparr>))"

definition decryptResume ::
  "'w Env \<Rightarrow> string \<Rightarrow> string \<Rightarrow> string \<Rightarrow> 'w \<Rightarrow> AppState
     \<Rightarrow> jsnum option \<times> AppState \<times> 'w" where
  "decryptResume env a businessId handle w st =
     (case decryptSubmit env a businessId handle w st of
        (r, st1, w1) \<Rightarrow> (r, st1\<lparr>isDecrypting := False\<rparr>, w1))"

text \<open>
  Modelled from the spec: the scheduling model of section 5. Calls come from
  independent call sites; "the only serialization point is the RecordStore's
  compare-and-set primitive, which must be atomic per record" and "a single record's CAS
  sequence is linearizable". Each caller runs \<open>decryptItemData\<close> over the ledger of
  this file, in two atomic steps: its reads, then its request with the submission and
  the reload. A schedule is the list of the callers' indices in the order in which
  their steps take place.
\<close>

datatype Caller = Idle AppState | Waiting string string AppState | Finished "jsnum option" AppState

fun stepCaller :: "string \<Rightarrow> World \<Rightarrow> Caller \<Rightarrow> Caller \<times> World" where
  "stepCaller businessId w (Idle st) =
     (case decryptStart (ledgerEnv id) businessId w st of
        Returned r st1 \<Rightarrow> (Finished r st1, w)
      | Awaiting a h st1 \<Rightarrow> (Waiting a h st1, w))"
| "stepCaller businessId w (Waiting a h st) =
     (case decryptResume (ledgerEnv id) a businessId h w st of
        (r, st1, w1) \<Rightarrow> (Finished r st1, w1))"
| "stepCaller businessId w (Finished r st) = (Finished r st, w)"

definition step :: "string \<Rightarrow> nat \<Rightarrow> World \<times> Caller list \<Rightarrow> World \<times> Caller list" where
  "step businessId k s =
     (case s of
        (w, cs) \<Rightarrow>
          (if k < length cs
           then (case stepCaller businessId w (cs ! k) of (c, w1) \<Rightarrow> (w1, cs[k := c]))
           else (w, cs)))"


text \<open>The record after the one commit, and the world that holds it.\<close>

definition verifiedRecord :: "Record \<Rightarrow> nat \<Rightarrow> Record" where
  "verifiedRecord r v = r\<lparr>status := Verified, clearValue := Some v, version := version r + 2\<rparr>"

definition commitWorld :: "World \<Rightarrow> string \<Rightarrow> Record \<Rightarrow> nat \<Rightarrow> World" where
  "commitWorld w i r v = w\<lparr>store := (store w)(i \<mapsto> verifiedRecord r v)\<rparr>"










section \<open>Facts about the JavaScript layer\<close>

lemma toDouble_small: "\<bar>i\<bar> < 2 ^ 53 \<Longrightarrow> toDouble i = Num i"
proof -
  assume a: "\<bar>i\<bar> < 2 ^ 53"
  then have n: "nat \<bar>i\<bar> < 2 ^ 53"
    by (simp add: nat_less_iff)
  then have r: "roundDouble (nat \<bar>i\<bar>) = nat \<bar>i\<bar>"
    by (simp add: roundDouble_def)
  have "(2::nat) ^ 53 < 2 ^ 1024"
    by simp
  with n have "\<not> 2 ^ 1024 \<le> nat \<bar>i\<bar>"
    by linarith
  with r show ?thesis
    by (simp add: toDouble_def Let_def)
qed


lemmas js_defs =
  parseInt_def isWhite_def digitOf_def fromDigits_def orZero_def Number_bigint_def
  msgIncludes_def msgOr_def isDigit_def

lemmas app_defs =
  createSupplyChainItem_def createBody_def createEncrypt_def createSubmit_def createCatch_def
  decryptItemData_def decryptBody_def decryptUnverified_def decryptSubmit_def decryptCatch_def
  loadSupplyChainData_def loadFailed_def notify_def setStatus_def logCall_def
  callerAddress_def statusCode_def emptyItemData_def hiddenStatus_def toItem_def

lemmas ledger_defs =
  ledgerEnv_def sdk_encrypt_def sdk_verifyDecryption_def ledger_verifyDecryption_def
  ledger_commit_def ledger_getBusinessData_def ledger_getEncryptedValue_def
  ledger_createBusinessData_def viewOf_def requestClearValue_def verifyProof_def
  decryptionProofFor_def provider_encrypt_def inclusionProof_def store_insert_def
  store_get_def compareAndSet_def toPending_def toVerified_def forwardStep_def
  newRecord_def world0_def app0_def worldVerified_def worldEncrypted_def worldCreated_def

lemma Number_bigint_small: "n < 2 ^ 53 \<Longrightarrow> Number_bigint n = Num (int n)"
proof -
  assume "n < 2 ^ 53"
  then have "\<bar>int n\<bar> < 2 ^ 53"
    by (simp add: of_nat_less_numeral_power_cancel_iff)
  then show ?thesis
    unfolding Number_bigint_def by (rule toDouble_small)
qed

lemma orZero_Num: "orZero (Num n) = Num n"
  by (simp add: orZero_def)

lemma toDouble_nonneg:
  "0 \<le> i \<Longrightarrow> toDouble i = PosInf \<or> (\<exists>m. 0 \<le> m \<and> toDouble i = Num m)"
  by (simp add: toDouble_def Let_def)

lemma orZero_toDouble: "0 \<le> i \<Longrightarrow> orZero (toDouble i) = toDouble i"
  by (simp add: toDouble_def orZero_def Let_def)

lemma digit_not_white: "isDigit c \<Longrightarrow> \<not> isWhite c"
  by (auto simp: isDigit_def isWhite_def)

lemma digit_not_special:
  "isDigit c \<Longrightarrow> c \<noteq> CHR ''-'' \<and> c \<noteq> CHR ''+'' \<and> c \<noteq> CHR ''x'' \<and> c \<noteq> CHR ''X''"
  by (auto simp: isDigit_def)

lemma digits_not_hex:
  assumes "\<forall>c \<in> set s. isDigit c"
  shows "\<not> isPrefixOf ''0x'' s \<and> \<not> isPrefixOf ''0X'' s"
proof (cases s)
  case Nil
  then show ?thesis by simp
next
  case (Cons c cs)
  show ?thesis
  proof (cases cs)
    case Nil
    with Cons show ?thesis by simp
  next
    case (Cons d ds)
    with assms \<open>s = c # cs\<close> have "isDigit d" by simp
    then have "d \<noteq> CHR ''x'' \<and> d \<noteq> CHR ''X''"
      by (simp add: digit_not_special)
    with Cons \<open>s = c # cs\<close> show ?thesis by auto
  qed
qed

text \<open>
  On a non-empty string of decimal digits \<open>parseInt\<close> skips nothing, reads no sign and
  no \<open>0x\<close>, and gives the number that the digits denote.
\<close>

lemma parseInt_decimal:
  assumes "\<forall>c \<in> set s. isDigit c" and "s \<noteq> []"
  shows "parseInt s = toDouble (int (fromDigits 10 (takeDigits 10 s)))"
proof -
  from assms(2) obtain c cs where s: "s = c # cs"
    by (cases s) simp_all
  with assms(1) have d: "isDigit c" by simp
  then have nw: "dropWhile isWhite s = s"
    using s by (simp add: digit_not_white)
  from d have sign: "c \<noteq> CHR ''-''" "c \<noteq> CHR ''+''"
    by (simp_all add: digit_not_special)
  from digits_not_hex [OF assms(1)] have hex: "\<not> isPrefixOf ''0x'' s" "\<not> isPrefixOf ''0X'' s"
    by simp_all
  from d obtain k where "digitOf c = Some k" "k < 10"
    by (auto simp: isDigit_def digitOf_def)
  then have ne: "takeDigits 10 s \<noteq> []"
    using s by simp
  have "parseInt s =
          (if takeDigits 10 s = [] then NaN
           else toDouble (int (fromDigits 10 (takeDigits 10 s))))"
    unfolding parseInt_def Let_def nw using hex sign s
    by (simp del: isPrefixOf.simps takeDigits.simps)
  with ne show ?thesis
    by simp
qed

lemma digitChar:
  "n < 10 \<Longrightarrow> isDigit (''0123456789'' ! n) \<and> digitOf (''0123456789'' ! n) = Some n"
proof -
  assume "n < 10"
  then have "n \<in> {0, 1, 2, 3, 4, 5, 6, 7, 8, 9}"
    by auto
  then show ?thesis
    by (auto simp: isDigit_def digitOf_def)
qed

lemma digits10_digits: "\<forall>c \<in> set (digits10 n). isDigit c"
proof (induction n rule: digits10.induct)
  case (1 n)
  show ?case
  proof (cases "n < 10")
    case True
    then show ?thesis
      by (simp add: digits10.simps [of n] digitChar del: nth_Cons_numeral)
  next
    case False
    have "n mod 10 < 10" by simp
    from digitChar [OF this] have "isDigit (''0123456789'' ! (n mod 10))" by simp
    with False 1 show ?thesis
      by (simp add: digits10.simps [of n] del: nth_Cons_numeral)
  qed
qed

lemma digits10_nonempty: "digits10 n \<noteq> []"
  by (simp add: digits10.simps [of n])

lemma takeDigits_append:
  "\<forall>c \<in> set s. isDigit c \<Longrightarrow> digitOf c = Some d \<Longrightarrow> d < 10 \<Longrightarrow>
     takeDigits 10 (s @ [c]) = takeDigits 10 s @ [d]"
proof (induction s)
  case Nil
  then show ?case by simp
next
  case (Cons x xs)
  from Cons.prems(1) have "isDigit x" by simp
  then obtain k where "digitOf x = Some k" "k < 10"
    by (auto simp: isDigit_def digitOf_def)
  with Cons show ?case by simp
qed

lemma fromDigits_snoc: "fromDigits R (ds @ [d]) = fromDigits R ds * R + d"
  by (simp add: fromDigits_def)

lemma digits10_value: "fromDigits 10 (takeDigits 10 (digits10 n)) = n"
proof (induction n rule: digits10.induct)
  case (1 n)
  show ?case
  proof (cases "n < 10")
    case True
    from digitChar [OF True] show ?thesis
      using True by (simp add: digits10.simps [of n] fromDigits_def del: nth_Cons_numeral)
  next
    case False
    have m: "n mod 10 < 10" by simp
    from digitChar [OF m] have d: "digitOf (''0123456789'' ! (n mod 10)) = Some (n mod 10)"
      by simp
    have "takeDigits 10 (digits10 n) = takeDigits 10 (digits10 (n div 10)) @ [n mod 10]"
      using False takeDigits_append [OF digits10_digits d m]
      by (simp add: digits10.simps [of n] del: nth_Cons_numeral)
    with False 1 show ?thesis
      by (simp add: fromDigits_snoc)
  qed
qed

text \<open>
  \<open>parseInt\<close> reads back the decimal digits of a number: the value field that holds the
  digits of \<open>n\<close> parses to \<open>n\<close>, exactly while \<open>n\<close> is below \<open>2 ^ 53\<close>.
\<close>

lemma parseInt_digits10: "parseInt (digits10 n) = toDouble (int n)"
  using parseInt_decimal [OF digits10_digits digits10_nonempty, of n]
  by (simp add: digits10_value)

lemma parseInt_digits10_exact: "n < 2 ^ 53 \<Longrightarrow> parseInt (digits10 n) = Num (int n)"
  using Number_bigint_small [of n] by (simp add: parseInt_digits10 Number_bigint_def)

section \<open>Verification without a wallet\<close>

lemma callerAddress_None:
  "callerAddress st = None \<longleftrightarrow>
     (\<not> isConnected st \<or> address st = None \<or> address st = Some [])"
  by (auto simp: callerAddress_def split: option.splits)

text \<open>
  Claim C10. When the wallet is not connected, or there is no caller address (it is
  undefined or the empty string), \<open>decryptItemData\<close> returns \<open>null\<close>. The world is
  the one it was given, no external call is logged, and the only change to the
  component is the error toast with the timer that hides it after 3000 ms.
\<close>

theorem decrypt_without_wallet:
  assumes "\<not> isConnected st \<or> address st = None \<or> address st = Some []"
  shows "decryptItemData env businessId w st =
           (None,
            st\<lparr>transactionStatus :=
                 \<lparr>ts_visible = True, ts_status = ToastError,
                  ts_message = ''Please connect wallet first''\<rparr>,
               timers := timers st @ [3000]\<rparr>,
            w)
         \<and> calls (fst (snd (decryptItemData env businessId w st))) = calls st
         \<and> isDecrypting (fst (snd (decryptItemData env businessId w st))) = isDecrypting st"
proof -
  from assms have "callerAddress st = None"
    by (simp add: callerAddress_None)
  then show ?thesis
    by (simp add: decryptItemData_def notify_def setStatus_def)
qed

theorem decrypt_without_wallet_witness:
  "decryptItemData (ledgerEnv id) ''item-7'' worldVerified
       ((app0 ''0xB2'' [])\<lparr>isConnected := False\<rparr>) =
     (None,
      (app0 ''0xB2'' [])
        \<lparr>isConnected := False,
         transactionStatus :=
           \<lparr>ts_visible = True, ts_status = ToastError,
            ts_message = ''Please connect wallet first''\<rparr>,
         timers := [3000]\<rparr>,
      worldVerified)
   \<and> calls (fst (snd (decryptItemData (ledgerEnv id) ''item-7'' worldVerified
                        ((app0 ''0xB2'' [])\<lparr>isConnected := False\<rparr>)))) = []"
  using decrypt_without_wallet
          [of "(app0 ''0xB2'' [])\<lparr>isConnected := False\<rparr>" "ledgerEnv id" "''item-7''"
              worldVerified]
  by (simp add: app0_def)

section \<open>The list projection\<close>

lemma loadItems_constants:
  "item \<in> set (loadItems env w ids) \<Longrightarrow>
     item_location item = ''Warehouse A'' \<and> item_status item = ''in_transit''"
  by (induction ids) (auto simp: toItem_def split: sum.splits)

lemma load_replaces_or_keeps:
  "supplyChainItems (loadSupplyChainData env w st) = supplyChainItems st
   \<or> (\<exists>ids. e_getAllBusinessIds env w = Inr ids
         \<and> supplyChainItems (loadSupplyChainData env w st) = loadItems env w ids)"
  by (simp add: loadSupplyChainData_def loadFailed_def notify_def setStatus_def logCall_def
           split: sum.splits)

text \<open>
  Claim C9. Every item that \<open>loadSupplyChainData\<close> builds has the location
  \<open>Warehouse A\<close> and the status string \<open>in_transit\<close>, whatever the contract returned;
  the stored lifecycle tag (\<open>publicValue1\<close> of the contract's record) reaches the item
  only in its field \<open>publicValue1\<close>: changing the stored tag changes that field and no
  other.
\<close>

theorem load_projection_constants:
  "(\<forall>item \<in> set (loadItems env w ids).
       item_location item = ''Warehouse A'' \<and> item_status item = ''in_transit'')
   \<and> (supplyChainItems (loadSupplyChainData env w st) = supplyChainItems st
       \<or> (\<forall>item \<in> set (supplyChainItems (loadSupplyChainData env w st)).
             item_location item = ''Warehouse A'' \<and> item_status item = ''in_transit''))
   \<and> item_publicValue1 (toItem i bd) = orZero (Number_bigint (bd_publicValue1 bd))
   \<and> toItem i (bd\<lparr>bd_publicValue1 := tag\<rparr>) =
       (toItem i bd)\<lparr>item_publicValue1 := orZero (Number_bigint tag)\<rparr>"
proof -
  have a: "\<forall>item \<in> set (loadItems env w ids).
             item_location item = ''Warehouse A'' \<and> item_status item = ''in_transit''"
    by (simp add: loadItems_constants)
  have b: "supplyChainItems (loadSupplyChainData env w st) = supplyChainItems st
           \<or> (\<forall>item \<in> set (supplyChainItems (loadSupplyChainData env w st)).
                 item_location item = ''Warehouse A'' \<and> item_status item = ''in_transit'')"
    using load_replaces_or_keeps [of env w st] loadItems_constants by metis
  have c: "item_publicValue1 (toItem i bd) = orZero (Number_bigint (bd_publicValue1 bd))"
    by (simp add: toItem_def)
  have d: "toItem i (bd\<lparr>bd_publicValue1 := tag\<rparr>) =
             (toItem i bd)\<lparr>item_publicValue1 := orZero (Number_bigint tag)\<rparr>"
    by (simp add: toItem_def)
  from a b c d show ?thesis
    by blast
qed

lemma load_worldVerified:
  "supplyChainItems (loadSupplyChainData (ledgerEnv id) worldVerified (app0 ''0xB2'' [])) =
     [toItem ''item-7''
        \<lparr>bd_name = ''crate'', bd_publicValue1 = 2, bd_publicValue2 = 0,
         bd_description = ''steel'', bd_creator = ''0xA1'', bd_timestamp = 7,
         bd_isVerified = True, bd_decryptedValue = 42\<rparr>]"
  by (simp add: loadSupplyChainData_def ledger_defs)

theorem load_projection_constants_witness:
  "map item_location
       (supplyChainItems
          (loadSupplyChainData (ledgerEnv id) worldVerified (app0 ''0xB2'' []))) =
     [''Warehouse A'']
   \<and> map item_status
       (supplyChainItems
          (loadSupplyChainData (ledgerEnv id) worldVerified (app0 ''0xB2'' []))) =
     [''in_transit'']
   \<and> map item_publicValue1
       (supplyChainItems
          (loadSupplyChainData (ledgerEnv id) worldVerified (app0 ''0xB2'' []))) =
     [Num 2]"
  using load_projection_constants
          [of "ledgerEnv id" worldVerified "[''item-7'']" "app0 ''0xB2'' []" "''item-7''"
              "\<lparr>bd_name = ''crate'', bd_publicValue1 = 2, bd_publicValue2 = 0,
                bd_description = ''steel'', bd_creator = ''0xA1'', bd_timestamp = 7,
                bd_isVerified = True, bd_decryptedValue = 42\<rparr>" 2]
  by (simp add: load_worldVerified Number_bigint_small orZero_Num toItem_def)

section \<open>Verification of a record that is already verified\<close>

lemma decrypt_verified_step:
  assumes "callerAddress st = Some a"
    and "e_getContractReadOnly env w = Inr True"
    and "e_getBusinessData env w businessId = Inr bd"
    and "bd_isVerified bd"
  shows "decryptItemData env businessId w st =
           (Some (orZero (Number_bigint (bd_decryptedValue bd))),
            st\<lparr>isDecrypting := False,
               transactionStatus :=
                 \<lparr>ts_visible = True, ts_status = ToastSuccess,
                  ts_message = ''Data already verified on-chain''\<rparr>,
               timers := timers st @ [2000],
               calls := calls st @ [CallGetContractReadOnly, CallGetBusinessData businessId]\<rparr>,
            w)"
  using assms
  by (simp add: decryptItemData_def decryptBody_def notify_def setStatus_def logCall_def)

lemma repeat_verified:
  assumes "e_getContractReadOnly env w = Inr True"
    and "e_getBusinessData env w businessId = Inr bd"
    and "bd_isVerified bd"
  shows "callerAddress st = Some a \<Longrightarrow>
         fst (repeatDecrypt env businessId n w st) =
           replicate n (Some (orZero (Number_bigint (bd_decryptedValue bd))))
         \<and> snd (snd (repeatDecrypt env businessId n w st)) = w
         \<and> calls (fst (snd (repeatDecrypt env businessId n w st))) =
             calls st
               @ concat (replicate n [CallGetContractReadOnly, CallGetBusinessData businessId])"
proof (induction n arbitrary: st)
  case 0
  then show ?case by simp
next
  case (Suc n)
  let ?st1 = "st\<lparr>isDecrypting := False,
                 transactionStatus :=
                   \<lparr>ts_visible = True, ts_status = ToastSuccess,
                    ts_message = ''Data already verified on-chain''\<rparr>,
                 timers := timers st @ [2000],
                 calls := calls st @ [CallGetContractReadOnly, CallGetBusinessData businessId]\<rparr>"
  have step: "decryptItemData env businessId w st =
                (Some (orZero (Number_bigint (bd_decryptedValue bd))), ?st1, w)"
    using Suc.prems assms by (rule decrypt_verified_step)
  have "callerAddress ?st1 = Some a"
    using Suc.prems by (simp add: callerAddress_def split: if_splits)
  from Suc.IH [OF this] step show ?case
    by (simp add: case_prod_beta)
qed

text \<open>
  Claim C2. For a record that the contract reports as verified, \<open>decryptItemData\<close>
  returns the stored clear value; the only calls it issues are the two reads (no signer,
  no handle, no decryption request), and the world, hence every record with its
  version, is left as it was. Calling it \<open>n\<close> times gives the same value \<open>n\<close> times.
  The stored value is one that a JavaScript number holds exactly.
\<close>

theorem verified_short_circuit:
  assumes "callerAddress st = Some a"
    and "e_getContractReadOnly env w = Inr True"
    and "e_getBusinessData env w businessId = Inr bd"
    and "bd_isVerified bd"
    and "bd_decryptedValue bd < 2 ^ 53"
  shows "fst (repeatDecrypt env businessId n w st) =
           replicate n (Some (Num (int (bd_decryptedValue bd))))
         \<and> snd (snd (repeatDecrypt env businessId n w st)) = w
         \<and> calls (fst (snd (repeatDecrypt env businessId n w st))) =
             calls st
               @ concat (replicate n [CallGetContractReadOnly, CallGetBusinessData businessId])"
proof -
  have "orZero (Number_bigint (bd_decryptedValue bd)) = Num (int (bd_decryptedValue bd))"
    using assms(5) by (simp add: Number_bigint_small orZero_Num)
  with repeat_verified [OF assms(2) assms(3) assms(4) assms(1), of n] show ?thesis
    by simp
qed

lemma worldVerified_read:
  "e_getBusinessData (ledgerEnv id) worldVerified ''item-7'' =
     Inr \<lparr>bd_name = ''crate'', bd_publicValue1 = 2, bd_publicValue2 = 0,
          bd_description = ''steel'', bd_creator = ''0xA1'', bd_timestamp = 7,
          bd_isVerified = True, bd_decryptedValue = 42\<rparr>"
  by (simp add: ledger_defs)

theorem verified_short_circuit_witness:
  "fst (repeatDecrypt (ledgerEnv id) ''item-7'' 3 worldVerified (app0 ''0xB2'' [])) =
     [Some (Num 42), Some (Num 42), Some (Num 42)]
   \<and> snd (snd (repeatDecrypt (ledgerEnv id) ''item-7'' 3 worldVerified (app0 ''0xB2'' []))) =
       worldVerified
   \<and> map_option version (store worldVerified ''item-7'') = Some 2
   \<and> calls (fst (snd (repeatDecrypt (ledgerEnv id) ''item-7'' 3 worldVerified
                        (app0 ''0xB2'' [])))) =
       [CallGetContractReadOnly, CallGetBusinessData ''item-7'',
        CallGetContractReadOnly, CallGetBusinessData ''item-7'',
        CallGetContractReadOnly, CallGetBusinessData ''item-7'']"
proof -
  have c: "callerAddress (app0 ''0xB2'' []) = Some ''0xB2''"
    by (simp add: callerAddress_def app0_def)
  have r: "e_getContractReadOnly (ledgerEnv id) worldVerified = Inr True"
    by (simp add: ledgerEnv_def)
  have n3: "replicate 3 x = [x, x, x]" for x :: "'a"
    by (simp add: numeral_3_eq_3)
  from verified_short_circuit [OF c r worldVerified_read, of 3] show ?thesis
    by (simp add: n3 app0_def worldVerified_def)
qed

section \<open>The record store\<close>

lemmas store_defs =
  store_insert_def store_get_def compareAndSet_def toPending_def toVerified_def
  forwardStep_def newRecord_def storeCreated_def noAttributes_def lifecycle_def
  backToCreated_def

lemma forwardStep_rank: "forwardStep a b \<longleftrightarrow> rank b = rank a + 1"
  by (cases a; cases b) (simp_all add: forwardStep_def)

lemma cas_stale:
  "store_get s i = Some r \<Longrightarrow> expectedVersion \<noteq> version r \<Longrightarrow>
     compareAndSet i expectedVersion m s = (Inl (VersionConflict r), s)"
  by (auto simp: compareAndSet_def store_get_def)

lemma cas_accepted:
  assumes "compareAndSet i expectedVersion m s = (Inr r', s')"
  shows "\<exists>r. store_get s i = Some r \<and> version r = expectedVersion
               \<and> forwardStep (status r) (status r')
               \<and> version r' = version r + 1
               \<and> s' = s(i \<mapsto> r')"
  using assms
  by (auto simp: compareAndSet_def store_get_def split: option.splits if_splits)

text \<open>
  Claim C6. A compare-and-set whose expected version differs from the stored one is
  rejected with \<open>VersionConflict\<close>, which carries the stored record, and the store is
  unchanged. An accepted compare-and-set was submitted against the stored version and
  stores the record with that version plus one; no other record changes.
\<close>

theorem cas_version_discipline:
  "(store_get s i = Some r \<longrightarrow> expectedVersion \<noteq> version r \<longrightarrow>
      compareAndSet i expectedVersion m s = (Inl (VersionConflict r), s))
   \<and> (compareAndSet i expectedVersion m s = (Inr r', s') \<longrightarrow>
        (\<exists>r0. store_get s i = Some r0 \<and> version r0 = expectedVersion
               \<and> version r' = version r0 + 1
               \<and> store_get s' i = Some r'
               \<and> (\<forall>j. j \<noteq> i \<longrightarrow> store_get s' j = store_get s j)))"
proof (intro conjI impI)
  assume "store_get s i = Some r" and "expectedVersion \<noteq> version r"
  then show "compareAndSet i expectedVersion m s = (Inl (VersionConflict r), s)"
    by (rule cas_stale)
next
  assume "compareAndSet i expectedVersion m s = (Inr r', s')"
  from cas_accepted [OF this] obtain r0 where
    r0: "store_get s i = Some r0" "version r0 = expectedVersion"
        "version r' = version r0 + 1" "s' = s(i \<mapsto> r')"
    by blast
  then have "store_get s' i = Some r'" "\<forall>j. j \<noteq> i \<longrightarrow> store_get s' j = store_get s j"
    by (simp_all add: store_get_def)
  with r0 show "\<exists>r0. store_get s i = Some r0 \<and> version r0 = expectedVersion
                      \<and> version r' = version r0 + 1
                      \<and> store_get s' i = Some r'
                      \<and> (\<forall>j. j \<noteq> i \<longrightarrow> store_get s' j = store_get s j)"
    by blast
qed

theorem cas_version_discipline_witness:
  "compareAndSet ''r1'' 5 toPending storeCreated =
     (Inl (VersionConflict (newRecord ''r1'' ''0xA1'' noAttributes ''0x0'' 7)), storeCreated)
   \<and> map_option version
        (store_get (snd (compareAndSet ''r1'' 0 toPending storeCreated)) ''r1'') = Some 1"
proof -
  have g: "store_get storeCreated ''r1'' = Some (newRecord ''r1'' ''0xA1'' noAttributes ''0x0'' 7)"
    by (simp add: store_defs)
  have v: "(5::nat) \<noteq> version (newRecord ''r1'' ''0xA1'' noAttributes ''0x0'' 7)"
    by (simp add: store_defs)
  have a: "compareAndSet ''r1'' 0 toPending storeCreated =
             (Inr ((newRecord ''r1'' ''0xA1'' noAttributes ''0x0'' 7)
                     \<lparr>status := VerificationPending, version := 1\<rparr>),
              storeCreated(''r1'' \<mapsto> (newRecord ''r1'' ''0xA1'' noAttributes ''0x0'' 7)
                                      \<lparr>status := VerificationPending, version := 1\<rparr>))"
    by (simp add: store_defs)
  from cas_version_discipline
         [of storeCreated "''r1''" "newRecord ''r1'' ''0xA1'' noAttributes ''0x0'' 7" 5 toPending]
       g v
  have first: "compareAndSet ''r1'' 5 toPending storeCreated =
     (Inl (VersionConflict (newRecord ''r1'' ''0xA1'' noAttributes ''0x0'' 7)), storeCreated)"
    by blast
  from a show ?thesis
    using first by (simp add: store_get_def)
qed

subsection \<open>Forward-only status\<close>

lemma cas_rejects_non_forward:
  assumes "store_get s i = Some r"
    and "\<not> forwardStep (status r) (fst (m r))"
  shows "(\<exists>e. fst (compareAndSet i v m s) = Inl e) \<and> snd (compareAndSet i v m s) = s"
  using assms by (simp add: compareAndSet_def store_get_def)

lemma stepOk_refl: "stepOk x x"
  by (cases x) simp_all

lemma applyOp_stepOk:
  "stepOk (map_option status (store_get s i)) (map_option status (store_get (applyOp x s) i))"
proof (cases x)
  case (OpInsert r)
  then show ?thesis
    by (cases "s i")
       (auto simp: store_insert_def store_get_def stepOk_refl split: option.splits)
next
  case (OpCas j v m)
  show ?thesis
  proof (cases "s i")
    case None
    then show ?thesis by (simp add: store_get_def)
  next
    case (Some r)
    then show ?thesis
      using OpCas
      by (auto simp: compareAndSet_def store_get_def split: option.splits)
  qed
qed

lemma observed_hd:
  "observed i ops s = map_option status (store_get s i) # tl (observed i ops s)"
  by (cases ops) simp_all

lemma respectsChain_Cons:
  "respectsChain (x # y # rest) = (stepOk x y \<and> respectsChain (y # rest))"
  by (cases x; cases y) simp_all

lemma respectsChain_single: "respectsChain [x]"
  by (cases x) simp_all

lemma observed_respectsChain: "respectsChain (observed i ops s)"
proof (induction ops arbitrary: s)
  case Nil
  then show ?case by (simp add: respectsChain_single)
next
  case (Cons x xs)
  obtain rest where
    rest: "observed i xs (applyOp x s) = map_option status (store_get (applyOp x s) i) # rest"
    using observed_hd by blast
  from Cons.IH [of "applyOp x s"] have
    "respectsChain (map_option status (store_get (applyOp x s) i) # rest)"
    by (simp add: rest)
  then show ?case
    by (simp add: rest respectsChain_Cons applyOp_stepOk)
qed

text \<open>
  Claim C5. A compare-and-set whose mutation asks for a status behind the stored one,
  or more than one step ahead of it, fails and leaves the store as it was. Over every
  sequence of inserts and compare-and-set attempts, with any mutations, the statuses
  read for a record before and after each operation respect the chain
  \<open>Created\<close>, \<open>VerificationPending\<close>, \<open>Verified\<close>: each read repeats the one before or
  is the next status.
\<close>

theorem status_forward_only:
  "(store_get s i = Some r \<longrightarrow>
      (rank (fst (m r)) < rank (status r) \<or> rank (status r) + 1 < rank (fst (m r))) \<longrightarrow>
      (\<exists>e. fst (compareAndSet i v m s) = Inl e) \<and> snd (compareAndSet i v m s) = s)
   \<and> respectsChain (observed i ops s)"
proof -
  have "(\<exists>e. fst (compareAndSet i v m s) = Inl e) \<and> snd (compareAndSet i v m s) = s"
    if g: "store_get s i = Some r"
      and b: "rank (fst (m r)) < rank (status r) \<or> rank (status r) + 1 < rank (fst (m r))"
  proof -
    from b have "\<not> forwardStep (status r) (fst (m r))"
      by (auto simp: forwardStep_rank)
    with g show ?thesis
      by (rule cas_rejects_non_forward)
  qed
  then show ?thesis
    using observed_respectsChain [of i ops s] by blast
qed

theorem status_forward_only_witness:
  "compareAndSet ''r1'' 0 (toVerified 42) storeCreated =
     (Inl (TransitionRejected (newRecord ''r1'' ''0xA1'' noAttributes ''0x0'' 7)), storeCreated)
   \<and> observed ''r1''
        (map toStoreOp lifecycle @ [OpCas ''r1'' 2 backToCreated, OpCas ''r1'' 2 toPending])
        Map.empty =
      [None, Some Created, Some VerificationPending, Some Verified, Some Verified,
       Some Verified]"
proof -
  have skip: "compareAndSet ''r1'' 0 (toVerified 42) storeCreated =
     (Inl (TransitionRejected (newRecord ''r1'' ''0xA1'' noAttributes ''0x0'' 7)), storeCreated)"
    by (simp add: store_defs)
  have obs: "observed ''r1''
        (map toStoreOp lifecycle @ [OpCas ''r1'' 2 backToCreated, OpCas ''r1'' 2 toPending])
        Map.empty =
      [None, Some Created, Some VerificationPending, Some Verified, Some Verified,
       Some Verified]"
    by (simp add: store_defs)
  from status_forward_only
         [of storeCreated "''r1''" "newRecord ''r1'' ''0xA1'' noAttributes ''0x0'' 7"
             "toVerified 42" 0
             "map toStoreOp lifecycle @ [OpCas ''r1'' 2 backToCreated, OpCas ''r1'' 2 toPending]"]
  have "snd (compareAndSet ''r1'' 0 (toVerified 42) storeCreated) = storeCreated"
    by (simp add: store_defs)
  with skip obs show ?thesis
    by simp
qed

subsection \<open>The clear value\<close>

lemma wf_empty: "storeWellFormed Map.empty"
  by (simp add: storeWellFormed_def)

lemma wf_update:
  "storeWellFormed s \<Longrightarrow> clearOnlyWhenVerified r \<Longrightarrow> storeWellFormed (s(i \<mapsto> r))"
  by (simp add: storeWellFormed_def)

lemma wf_lookup: "storeWellFormed s \<Longrightarrow> s i = Some r \<Longrightarrow> clearOnlyWhenVerified r"
  by (simp add: storeWellFormed_def)

lemma wf_lifecycle_step:
  assumes wf: "storeWellFormed s"
  shows "storeWellFormed (applyOp (toStoreOp x) s)"
proof (cases x)
  case (Create i owner attrs handle t)
  have "clearOnlyWhenVerified
          ((newRecord i owner attrs handle t)\<lparr>version := 0, status := Created\<rparr>)"
    by (simp add: clearOnlyWhenVerified_def newRecord_def)
  with wf Create show ?thesis
    by (cases "s i") (simp_all add: store_insert_def newRecord_def wf_update)
next
  case (RequestPending i v)
  show ?thesis
  proof (cases "s i")
    case None
    with wf RequestPending show ?thesis
      by (simp add: compareAndSet_def)
  next
    case (Some r)
    from wf Some have c: "clearOnlyWhenVerified r"
      by (rule wf_lookup)
    have "clearOnlyWhenVerified
            (r\<lparr>status := VerificationPending, clearValue := clearValue r,
               version := version r + 1\<rparr>)"
      if "forwardStep (status r) VerificationPending"
      using that c by (auto simp: clearOnlyWhenVerified_def forwardStep_def)
    with wf Some RequestPending show ?thesis
      by (auto simp: compareAndSet_def toPending_def intro!: wf_update)
  qed
next
  case (CommitVerified i v c)
  show ?thesis
  proof (cases "s i")
    case None
    with wf CommitVerified show ?thesis
      by (simp add: compareAndSet_def)
  next
    case (Some r)
    have "clearOnlyWhenVerified
            (r\<lparr>status := Verified, clearValue := Some c, version := version r + 1\<rparr>)"
      by (simp add: clearOnlyWhenVerified_def)
    with wf Some CommitVerified show ?thesis
      by (auto simp: compareAndSet_def toVerified_def intro!: wf_update)
  qed
qed

lemma wf_lifecycle_run:
  "storeWellFormed s \<Longrightarrow> storeWellFormed (runOps (map toStoreOp ops) s)"
  by (induction ops arbitrary: s) (simp_all add: wf_lifecycle_step)

lemma verified_frozen_step:
  assumes "s i = Some r" and "status r = Verified"
  shows "applyOp x s i = Some r"
proof (cases x)
  case (OpInsert r')
  with assms show ?thesis
    by (auto simp: store_insert_def split: option.splits)
next
  case (OpCas j v m)
  with assms show ?thesis
    by (auto simp: compareAndSet_def forwardStep_def split: option.splits)
qed

lemma verified_frozen_run:
  "s i = Some r \<Longrightarrow> status r = Verified \<Longrightarrow> runOps later s i = Some r"
  by (induction later arbitrary: s) (simp_all add: verified_frozen_step)

text \<open>
  Claim C7. At every point of a lifecycle, that is after every sequence of creations,
  verification requests and proof submissions (for any ids, with any expected versions)
  on an empty store, a record has no clear value unless its status is \<open>Verified\<close>.
  A record that has a clear value is then frozen: no later insert and no later
  compare-and-set, with any mutation, changes the record, so the clear value stays
  what it is. In the dashboard an item card shows a decrypted value only for a verified
  item.
\<close>

theorem clear_value_discipline:
  "storeWellFormed (runOps (map toStoreOp ops) Map.empty)
   \<and> (\<forall>i r c. runOps (map toStoreOp ops) Map.empty i = Some r \<longrightarrow> clearValue r = Some c \<longrightarrow>
         status r = Verified
         \<and> (\<forall>later. runOps later (runOps (map toStoreOp ops) Map.empty) i = Some r))
   \<and> (\<not> item_isVerified item \<longrightarrow> snd (cardFooter item) = None)"
proof -
  let ?s = "runOps (map toStoreOp ops) Map.empty"
  have wf: "storeWellFormed ?s"
    using wf_empty by (rule wf_lifecycle_run)
  have frozen: "status r = Verified \<and> (\<forall>later. runOps later ?s i = Some r)"
    if "?s i = Some r" and "clearValue r = Some c" for i r c
  proof -
    from wf that(1) have "clearOnlyWhenVerified r"
      by (rule wf_lookup)
    with that(2) have "status r = Verified"
      by (simp add: clearOnlyWhenVerified_def)
    with that(1) show ?thesis
      by (simp add: verified_frozen_run)
  qed
  have card: "\<not> item_isVerified item \<longrightarrow> snd (cardFooter item) = None"
    by (simp add: cardFooter_def)
  from wf frozen card show ?thesis
    by blast
qed

lemma lifecycle_run:
  "runOps (map toStoreOp lifecycle) Map.empty =
     [''r1'' \<mapsto> (newRecord ''r1'' ''0xA1'' noAttributes ''0x0'' 7)
                   \<lparr>status := Verified, clearValue := Some 42, version := 2\<rparr>]"
  by (simp add: store_defs numeral_2_eq_2)

theorem clear_value_discipline_witness:
  "map_option clearValue
     (runOps [OpCas ''r1'' 2 (toVerified 99), OpCas ''r1'' 2 backToCreated,
              OpInsert (newRecord ''r1'' ''0xB2'' noAttributes ''0x1'' 9)]
        (runOps (map toStoreOp lifecycle) Map.empty) ''r1'') = Some (Some 42)
   \<and> map_option status (runOps (map toStoreOp lifecycle) Map.empty ''r1'') = Some Verified
   \<and> map_option clearValue (runOps (map toStoreOp (take 2 lifecycle)) Map.empty ''r1'') =
       Some None"
proof -
  have early: "map_option clearValue
                 (runOps (map toStoreOp (take 2 lifecycle)) Map.empty ''r1'') = Some None"
    by (simp add: store_defs)
  from clear_value_discipline [of lifecycle]
  have "\<forall>later. runOps later (runOps (map toStoreOp lifecycle) Map.empty) ''r1'' =
          Some ((newRecord ''r1'' ''0xA1'' noAttributes ''0x0'' 7)
                  \<lparr>status := Verified, clearValue := Some 42, version := 2\<rparr>)"
    by (simp add: lifecycle_run)
  then have "runOps [OpCas ''r1'' 2 (toVerified 99), OpCas ''r1'' 2 backToCreated,
                     OpInsert (newRecord ''r1'' ''0xB2'' noAttributes ''0x1'' 9)]
               (runOps (map toStoreOp lifecycle) Map.empty) ''r1'' =
             Some ((newRecord ''r1'' ''0xA1'' noAttributes ''0x0'' 7)
                     \<lparr>status := Verified, clearValue := Some 42, version := 2\<rparr>)"
    by blast
  then show ?thesis
    using early by (simp add: lifecycle_run)
qed

section \<open>The two halves of a verification\<close>

lemma decryptCatch_world: "snd (snd (decryptCatch env e w st)) = w"
  by (simp add: decryptCatch_def)

lemma decrypt_split:
  "decryptItemData env businessId w st =
     (case decryptStart env businessId w st of
        Returned r st1 \<Rightarrow> (r, st1, w)
      | Awaiting a h st1 \<Rightarrow> decryptResume env a businessId h w st1)"
  by (simp add: decryptItemData_def decryptStart_def decryptBody_def startBody_def
        decryptUnverified_def startUnverified_def decryptResume_def returned_def
        decryptCatch_def
      split: option.splits sum.splits prod.splits)


lemma start_unverified:
  assumes "store w i = Some r" and "status r \<noteq> Verified" and "callerAddress st = Some a"
  shows "decryptStart (ledgerEnv others) i w st =
           Awaiting a (ciphertextHandle r)
             (st\<lparr>isDecrypting := True,
                 calls := calls st @ [CallGetContractReadOnly, CallGetBusinessData i,
                                      CallGetContractWithSigner, CallGetEncryptedValue i]\<rparr>)"
  using assms
  by (simp add: decryptStart_def startBody_def startUnverified_def ledgerEnv_def
        ledger_getBusinessData_def ledger_getEncryptedValue_def store_get_def viewOf_def
        logCall_def)


lemma request_one:
  assumes "plaintexts w h = Some v" and "ctx \<in> set (authorized w)"
  shows "requestClearValue [h] ctx w =
           Inr \<lparr>clearValues = [h \<mapsto> v], abiEncodedClearValues = [v],
                decryptionProof = decryptionProofFor ctx [h] [v]\<rparr>"
  using assms by (simp add: requestClearValue_def)

lemma submit_created:
  assumes "store w i = Some r" and "status r = Created"
  shows "ledger_verifyDecryption sender i [v]
           (decryptionProofFor (ledgerAddress w) [ciphertextHandle r] [v]) w =
         (None, commitWorld w i r v)"
  using assms
  by (simp add: ledger_verifyDecryption_def ledger_commit_def store_get_def verifyProof_def
        compareAndSet_def toPending_def toVerified_def forwardStep_def commitWorld_def
        verifiedRecord_def)



lemma resume_commits:
  assumes "store w i = Some r" and "status r = Created"
    and "plaintexts w (ciphertextHandle r) = Some v"
    and "ledgerAddress w \<in> set (authorized w)"
    and "contractAddress st = ledgerAddress w"
  shows "fst (decryptResume (ledgerEnv id) a i (ciphertextHandle r) w st) =
           Some (Number_bigint v)"
    and "snd (snd (decryptResume (ledgerEnv id) a i (ciphertextHandle r) w st)) =
           commitWorld w i r v"
    and "ts_message (transactionStatus
           (fst (snd (decryptResume (ledgerEnv id) a i (ciphertextHandle r) w st)))) =
           ''Data decrypted and verified successfully!''"
proof -
  have v: "e_verifyDecryption (ledgerEnv id) [ciphertextHandle r] (contractAddress st)
             (e_contractVerifyDecryption (ledgerEnv id) a i) w =
           (Inr \<lparr>clearValues = [ciphertextHandle r \<mapsto> v], abiEncodedClearValues = [v],
                 decryptionProof =
                   decryptionProofFor (ledgerAddress w) [ciphertextHandle r] [v]\<rparr>,
            commitWorld w i r v)"
    using assms
    by (simp add: ledgerEnv_def sdk_verifyDecryption_def request_one submit_created)
  show "fst (decryptResume (ledgerEnv id) a i (ciphertextHandle r) w st) =
          Some (Number_bigint v)"
    using v by (simp add: decryptResume_def decryptSubmit_def case_prod_beta)
  show "snd (snd (decryptResume (ledgerEnv id) a i (ciphertextHandle r) w st)) =
          commitWorld w i r v"
    using v by (simp add: decryptResume_def decryptSubmit_def case_prod_beta)
  show "ts_message (transactionStatus
          (fst (snd (decryptResume (ledgerEnv id) a i (ciphertextHandle r) w st)))) =
          ''Data decrypted and verified successfully!''"
    using v
    by (simp add: decryptResume_def decryptSubmit_def case_prod_beta notify_def setStatus_def)
qed






lemma ledgerEnv_sel:
  "e_getContractReadOnly (ledgerEnv others) = (\<lambda>w. Inr True)"
  "e_getContractWithSigner (ledgerEnv others) = (\<lambda>w. Inr True)"
  "e_getAllBusinessIds (ledgerEnv others) = (\<lambda>w. Inr (idOrder w))"
  "e_getBusinessData (ledgerEnv others) = ledger_getBusinessData"
  "e_getEncryptedValue (ledgerEnv others) = ledger_getEncryptedValue"
  "e_contractVerifyDecryption (ledgerEnv others) = ledger_verifyDecryption"
  "e_verifyDecryption (ledgerEnv others) = sdk_verifyDecryption others"
  by (simp_all add: ledgerEnv_def)

lemma loadItems_others:
  "loadItems (ledgerEnv p) w ids = loadItems (ledgerEnv q) w ids"
  by (induction ids) (simp_all add: ledgerEnv_sel split: sum.splits)

lemma load_others:
  "loadSupplyChainData (ledgerEnv p) w st = loadSupplyChainData (ledgerEnv q) w st"
  using loadItems_others [of p w _ q]
  by (simp add: loadSupplyChainData_def ledgerEnv_sel)

lemma catch_others:
  "decryptCatch (ledgerEnv p) e w st = decryptCatch (ledgerEnv q) e w st"
  using load_others [of p w _ q] by (simp add: decryptCatch_def)

lemma start_others:
  "decryptStart (ledgerEnv p) i w st = decryptStart (ledgerEnv q) i w st"
  using catch_others [of p _ w _ q]
  by (simp add: decryptStart_def startBody_def startUnverified_def ledgerEnv_sel
      split: option.splits sum.splits)

lemma resume_others:
  "decryptResume (ledgerEnv others) a i h w st =
     decryptResume (ledgerEnv (\<lambda>x. x)) a i h (others w) st"
  using catch_others [of others _ _ _ "\<lambda>x. x"] load_others [of others _ _ "\<lambda>x. x"]
  by (simp add: decryptResume_def decryptSubmit_def ledgerEnv_sel sdk_verifyDecryption_def
      split: sum.splits prod.splits option.splits)

lemma interference_is_interleaving:
  "decryptItemData (ledgerEnv others) i w st =
     (case decryptStart (ledgerEnv id) i w st of
        Returned r st1 \<Rightarrow> (r, st1, w)
      | Awaiting a h st1 \<Rightarrow> decryptResume (ledgerEnv id) a i h (others w) st1)"
  using start_others [of others i w st id] resume_others [of others _ i _ w _]
  by (simp add: decrypt_split id_def split: Progress.splits)

section \<open>Creation followed by verification\<close>

lemma create_success:
  assumes "callerAddress st = Some a"
    and "e_getContractWithSigner env w = Inr True"
    and "e_encrypt env (contractAddress st) a
           (orZero (parseInt (nd_value (newItemData st)))) w = (Inr er, w1)"
    and "e_createBusinessData env a (''item-'' @ digits10 (e_dateNow env w))
           (nd_name (newItemData st)) (encryptedData er) (proof_bytes er)
           (statusCode (nd_status (newItemData st))) 0
           (nd_description (newItemData st)) w1 = (None, w2)"
  shows "snd (createSupplyChainItem env w st) = w2"
    and "newItemData (fst (createSupplyChainItem env w st)) = emptyItemData"
    and "creatingItem (fst (createSupplyChainItem env w st)) = False"
  using assms
  by (simp_all add: createSupplyChainItem_def createBody_def createEncrypt_def
        createSubmit_def setStatus_def logCall_def Let_def)

lemma decrypt_success:
  assumes "callerAddress st = Some b"
    and "e_getContractReadOnly env w = Inr True"
    and "e_getBusinessData env w businessId = Inr bd"
    and "\<not> bd_isVerified bd"
    and "e_getContractWithSigner env w = Inr True"
    and "e_getEncryptedValue env w businessId = Inr h"
    and "e_verifyDecryption env [h] (contractAddress st)
           (e_contractVerifyDecryption env b businessId) w = (Inr res, w1)"
  shows "fst (decryptItemData env businessId w st) =
           Some (case clearValues res h of None \<Rightarrow> NaN | Some v \<Rightarrow> Number_bigint v)"
    and "snd (snd (decryptItemData env businessId w st)) = w1"
  using assms
  by (simp_all add: decryptItemData_def decryptBody_def decryptUnverified_def
        decryptSubmit_def setStatus_def logCall_def)


lemma load_calls: "\<exists>rest. calls (loadSupplyChainData env w st) = calls st @ rest"
  by (simp add: loadSupplyChainData_def loadFailed_def notify_def setStatus_def logCall_def
      split: sum.splits)

text \<open>
  Once the wallet is connected and the signer's contract is there, the first thing
  \<open>createSupplyChainItem\<close> does is to call \<open>encrypt\<close> with the number read from the
  value field (lines 155 to 161): no outcome of the later calls removes that call.
\<close>

lemma create_calls_encrypt:
  assumes "callerAddress st = Some a" and "e_getContractWithSigner env w = Inr True"
  shows "\<exists>rest. calls (fst (createSupplyChainItem env w st)) =
           calls st @ [CallGetContractWithSigner,
                       CallEncrypt (orZero (parseInt (nd_value (newItemData st))))] @ rest"
proof -
  let ?x = "orZero (parseInt (nd_value (newItemData st)))"
  let ?st1 = "logCall (CallEncrypt ?x)
                (logCall CallGetContractWithSigner
                   (setStatus ToastPending ''Creating supply chain item with FHE encryption...''
                      (st\<lparr>creatingItem := True\<rparr>)))"
  have base: "calls ?st1 = calls st @ [CallGetContractWithSigner, CallEncrypt ?x]"
    by (simp add: logCall_def setStatus_def)
  have catch: "calls (createCatch e s) = calls s" for e s
    by (simp add: createCatch_def notify_def setStatus_def)
  have submit: "\<exists>rest. calls (fst (createSubmit env a i er wEnc ?st1)) = calls ?st1 @ rest"
    for i er wEnc
  proof (cases "e_createBusinessData env a i (nd_name (newItemData ?st1)) (encryptedData er)
                  (proof_bytes er) (statusCode (nd_status (newItemData ?st1))) 0
                  (nd_description (newItemData ?st1)) wEnc")
    case (Pair r wNew)
    show ?thesis
    proof (cases r)
      case None
      from load_calls [of env wNew
             "notify ToastSuccess ''Supply chain item created successfully!'' 2000
                (logCall (CallCreateBusinessData i) ?st1)"]
      obtain rest where
        "calls (loadSupplyChainData env wNew
                  (notify ToastSuccess ''Supply chain item created successfully!'' 2000
                     (logCall (CallCreateBusinessData i) ?st1))) =
           calls (notify ToastSuccess ''Supply chain item created successfully!'' 2000
                    (logCall (CallCreateBusinessData i) ?st1)) @ rest"
        by blast
      with Pair None show ?thesis
        by (simp add: createSubmit_def notify_def setStatus_def logCall_def)
    next
      case (Some e)
      with Pair show ?thesis
        by (simp add: createSubmit_def catch logCall_def)
    qed
  qed
  have enc: "\<exists>rest. calls (fst (createEncrypt env a w
               (logCall CallGetContractWithSigner
                  (setStatus ToastPending ''Creating supply chain item with FHE encryption...''
                     (st\<lparr>creatingItem := True\<rparr>))))) = calls ?st1 @ rest"
  proof (cases "e_encrypt env (contractAddress st) a ?x w")
    case (Pair r wEnc)
    show ?thesis
    proof (cases r)
      case (Inl e)
      with Pair show ?thesis
        by (simp add: createEncrypt_def Let_def catch logCall_def setStatus_def)
    next
      case (Inr er)
      from submit [of "''item-'' @ digits10 (e_dateNow env w)" er wEnc] Pair Inr show ?thesis
        by (simp add: createEncrypt_def Let_def logCall_def setStatus_def)
    qed
  qed
  then obtain rest where
    "calls (fst (createEncrypt env a w
               (logCall CallGetContractWithSigner
                  (setStatus ToastPending ''Creating supply chain item with FHE encryption...''
                     (st\<lparr>creatingItem := True\<rparr>))))) = calls ?st1 @ rest"
    by blast
  with assms base show ?thesis
    by (simp add: createSupplyChainItem_def createBody_def case_prod_beta)
qed

text \<open>The provider and the contract of this file, on a value of the domain and a new id.\<close>

lemma encrypt_ledger:
  assumes "0 \<le> v" and "v < int (domainBound w)"
  shows "e_encrypt (ledgerEnv others) c a (Num v) w =
           (Inr \<lparr>encryptedData = ''0x'' @ digits10 (nextHandle w),
                 proof_bytes =
                   inclusionProof (c @ ''/'' @ a) (''0x'' @ digits10 (nextHandle w))\<rparr>,
            w\<lparr>plaintexts := (plaintexts w)(''0x'' @ digits10 (nextHandle w) \<mapsto> nat v),
              nextHandle := nextHandle w + 1\<rparr>)"
  using assms by (simp add: ledgerEnv_def sdk_encrypt_def provider_encrypt_def Let_def)

lemma insert_ledger:
  assumes "store w i = None"
  shows "e_createBusinessData (ledgerEnv others) a i itemName h incProof tag aux descr w =
           (None,
            w\<lparr>store := (store w)(i \<mapsto>
                  newRecord i a
                    \<lparr>pa_name = itemName, pa_description = descr, pa_tag = tag, pa_aux = aux\<rparr>
                    h (clock w)),
              idOrder := idOrder w @ [i]\<rparr>)"
  using assms
  by (simp add: ledgerEnv_def ledger_createBusinessData_def store_insert_def newRecord_def)

text \<open>
  The world that \<open>createSupplyChainItem\<close> leaves: the provider knows the plaintext of a
  new handle, and the store holds a \<open>Created\<close> record for that handle under the id made
  from the clock.
\<close>

lemma create_ledger:
  assumes a: "callerAddress st = Some a"
    and p: "parseInt (nd_value (newItemData st)) = Num v"
    and v: "0 \<le> v" "v < int (domainBound w)"
    and fresh: "store w (''item-'' @ digits10 (clock w)) = None"
  shows "snd (createSupplyChainItem (ledgerEnv others) w st) =
           w\<lparr>plaintexts := (plaintexts w)(''0x'' @ digits10 (nextHandle w) \<mapsto> nat v),
             nextHandle := nextHandle w + 1,
             store := (store w)(''item-'' @ digits10 (clock w) \<mapsto>
                        newRecord (''item-'' @ digits10 (clock w)) a
                          \<lparr>pa_name = nd_name (newItemData st),
                           pa_description = nd_description (newItemData st),
                           pa_tag = statusCode (nd_status (newItemData st)), pa_aux = 0\<rparr>
                          (''0x'' @ digits10 (nextHandle w)) (clock w)),
             idOrder := idOrder w @ [''item-'' @ digits10 (clock w)]\<rparr>"
proof -
  have s: "e_getContractWithSigner (ledgerEnv others) w = Inr True"
    by (simp add: ledgerEnv_def)
  have now: "e_dateNow (ledgerEnv others) w = clock w"
    by (simp add: ledgerEnv_def)
  have item: "orZero (parseInt (nd_value (newItemData st))) = Num v"
    using p by (simp add: orZero_Num)
  let ?h = "''0x'' @ digits10 (nextHandle w)"
  let ?er = "\<lparr>encryptedData = ?h,
              proof_bytes = inclusionProof (contractAddress st @ ''/'' @ a) ?h\<rparr>"
  let ?wEnc = "w\<lparr>plaintexts := (plaintexts w)(?h \<mapsto> nat v), nextHandle := nextHandle w + 1\<rparr>"
  let ?wNew =
    "w\<lparr>plaintexts := (plaintexts w)(?h \<mapsto> nat v),
       nextHandle := nextHandle w + 1,
       store := (store w)(''item-'' @ digits10 (clock w) \<mapsto>
                  newRecord (''item-'' @ digits10 (clock w)) a
                    \<lparr>pa_name = nd_name (newItemData st),
                     pa_description = nd_description (newItemData st),
                     pa_tag = statusCode (nd_status (newItemData st)), pa_aux = 0\<rparr>
                    ?h (clock w)),
       idOrder := idOrder w @ [''item-'' @ digits10 (clock w)]\<rparr>"
  have e: "e_encrypt (ledgerEnv others) (contractAddress st) a
             (orZero (parseInt (nd_value (newItemData st)))) w = (Inr ?er, ?wEnc)"
    unfolding item using v by (rule encrypt_ledger)
  have f: "store ?wEnc (''item-'' @ digits10 (clock w)) = None"
    using fresh by simp
  have i: "e_createBusinessData (ledgerEnv others) a
             (''item-'' @ digits10 (e_dateNow (ledgerEnv others) w))
             (nd_name (newItemData st)) (encryptedData ?er) (proof_bytes ?er)
             (statusCode (nd_status (newItemData st))) 0
             (nd_description (newItemData st)) ?wEnc =
           (None, ?wNew)"
    unfolding now using insert_ledger [OF f, of others a]
    by simp
  from create_success(1) [OF a s e i] show ?thesis .
qed

text \<open>
  A verification of a record that is \<open>Created\<close>, with no other caller at work: the two
  halves of \<open>decryptItemData\<close> one after the other.
\<close>

lemma verify_created:
  assumes r: "store w i = Some r" "status r = Created"
    and pt: "plaintexts w (ciphertextHandle r) = Some n"
    and au: "ledgerAddress w \<in> set (authorized w)"
    and b: "callerAddress verifier = Some b"
    and ca: "contractAddress verifier = ledgerAddress w"
  shows "fst (decryptItemData (ledgerEnv id) i w verifier) = Some (Number_bigint n)"
    and "snd (snd (decryptItemData (ledgerEnv id) i w verifier)) = commitWorld w i r n"
proof -
  have nv: "status r \<noteq> Verified"
    using r(2) by simp
  let ?st = "verifier\<lparr>isDecrypting := True,
               calls := calls verifier @ [CallGetContractReadOnly, CallGetBusinessData i,
                                          CallGetContractWithSigner, CallGetEncryptedValue i]\<rparr>"
  have split: "decryptItemData (ledgerEnv id) i w verifier =
                 decryptResume (ledgerEnv id) b i (ciphertextHandle r) w ?st"
    by (simp add: decrypt_split start_unverified [OF r(1) nv b])
  have ca1: "contractAddress ?st = ledgerAddress w"
    using ca by simp
  show "fst (decryptItemData (ledgerEnv id) i w verifier) = Some (Number_bigint n)"
    unfolding split using r pt au ca1 by (rule resume_commits(1))
  show "snd (snd (decryptItemData (ledgerEnv id) i w verifier)) = commitWorld w i r n"
    unfolding split using r pt au ca1 by (rule resume_commits(2))
qed

text \<open>
  Claim C1. For every caller \<open>a\<close> (the owner), every name, description and status of the
  create form (the public attributes) and every value \<open>v\<close> of the provider's domain that
  the value field parses to, in every world where the clock's id is new:
  \<open>createSupplyChainItem\<close> hands \<open>v\<close> to \<open>encrypt\<close> and creates the record whose
  id is \<open>item-\<close> followed by the clock; the record is \<open>Created\<close>, it belongs to
  \<open>a\<close>, and its handle has the plaintext \<open>v\<close>; a
  verification of that id in the world the creation left, by any connected caller who
  addresses the contract, returns \<open>v\<close>; and the record ends \<open>Verified\<close> with the clear
  value \<open>v\<close>. The functions of the dashboard are those of App.tsx; the contract and the
  provider are the ones this file models from the specification. \<open>v\<close> is below
  \<open>2 ^ 53\<close>, the integers a JavaScript number holds exactly. \<open>createSupplyChainItem\<close>
  returns no id: the id is the one it makes from \<open>Date.now()\<close>.
\<close>

theorem create_then_verify_round_trip:
  assumes "callerAddress st = Some a"
    and "parseInt (nd_value (newItemData st)) = Num v"
    and "0 \<le> v" and "v < int (domainBound w)" and "v < 2 ^ 53"
    and "store w (''item-'' @ digits10 (clock w)) = None"
    and "ledgerAddress w \<in> set (authorized w)"
    and "callerAddress verifier = Some b"
    and "contractAddress verifier = ledgerAddress w"
  shows "CallEncrypt (Num v) \<in> set (calls (fst (createSupplyChainItem (ledgerEnv id) w st)))
         \<and> map_option (\<lambda>r. (ownerId r, status r, clearValue r))
             (store (snd (createSupplyChainItem (ledgerEnv id) w st))
                (''item-'' @ digits10 (clock w))) = Some (a, Created, None)
         \<and> map_option (\<lambda>r. plaintexts (snd (createSupplyChainItem (ledgerEnv id) w st))
                              (ciphertextHandle r))
             (store (snd (createSupplyChainItem (ledgerEnv id) w st))
                (''item-'' @ digits10 (clock w))) = Some (Some (nat v))
         \<and> fst (decryptItemData (ledgerEnv id) (''item-'' @ digits10 (clock w))
                  (snd (createSupplyChainItem (ledgerEnv id) w st)) verifier) = Some (Num v)
         \<and> map_option (\<lambda>r. (ownerId r, status r, clearValue r))
             (store
                (snd (snd (decryptItemData (ledgerEnv id) (''item-'' @ digits10 (clock w))
                             (snd (createSupplyChainItem (ledgerEnv id) w st)) verifier)))
                (''item-'' @ digits10 (clock w))) = Some (a, Verified, Some (nat v))"
proof -
  let ?i = "''item-'' @ digits10 (clock w)"
  let ?h = "''0x'' @ digits10 (nextHandle w)"
  let ?r = "newRecord ?i a
              \<lparr>pa_name = nd_name (newItemData st),
               pa_description = nd_description (newItemData st),
               pa_tag = statusCode (nd_status (newItemData st)), pa_aux = 0\<rparr>
              ?h (clock w)"
  let ?wNew = "w\<lparr>plaintexts := (plaintexts w)(?h \<mapsto> nat v),
                 nextHandle := nextHandle w + 1,
                 store := (store w)(?i \<mapsto> ?r),
                 idOrder := idOrder w @ [?i]\<rparr>"
  have s: "e_getContractWithSigner (ledgerEnv id) w = Inr True"
    by (simp add: ledgerEnv_def)
  from create_calls_encrypt [OF assms(1) s] obtain rest where
    "calls (fst (createSupplyChainItem (ledgerEnv id) w st)) =
       calls st @ [CallGetContractWithSigner,
                   CallEncrypt (orZero (parseInt (nd_value (newItemData st))))] @ rest"
    by blast
  then have called:
    "CallEncrypt (Num v) \<in> set (calls (fst (createSupplyChainItem (ledgerEnv id) w st)))"
    using assms(2) by (simp add: orZero_Num)
  have created: "snd (createSupplyChainItem (ledgerEnv id) w st) = ?wNew"
    using assms(1,2,3,4,6) by (rule create_ledger)
  have r: "store ?wNew ?i = Some ?r"
    by simp
  have cr: "status ?r = Created"
    by (simp add: newRecord_def)
  have pt: "plaintexts ?wNew (ciphertextHandle ?r) = Some (nat v)"
    by (simp add: newRecord_def)
  have au: "ledgerAddress ?wNew \<in> set (authorized ?wNew)"
    using assms(7) by simp
  have ca: "contractAddress verifier = ledgerAddress ?wNew"
    using assms(9) by simp
  have "nat v < 2 ^ 53"
    using assms(3,5) by (simp add: nat_less_iff)
  then have exact: "Number_bigint (nat v) = Num v"
    using assms(3) by (simp add: Number_bigint_small)
  have ret: "fst (decryptItemData (ledgerEnv id) ?i ?wNew verifier) = Some (Num v)"
    using verify_created(1) [OF r cr pt au assms(8) ca] exact by simp
  have fin: "snd (snd (decryptItemData (ledgerEnv id) ?i ?wNew verifier)) =
               commitWorld ?wNew ?i ?r (nat v)"
    by (rule verify_created(2) [OF r cr pt au assms(8) ca])
  have before: "map_option (\<lambda>r. (ownerId r, status r, clearValue r)) (store ?wNew ?i) =
                  Some (a, Created, None)"
    by (simp add: newRecord_def)
  have handle: "map_option (\<lambda>r. plaintexts ?wNew (ciphertextHandle r)) (store ?wNew ?i) =
                  Some (Some (nat v))"
    by (simp add: newRecord_def)
  have after: "map_option (\<lambda>r. (ownerId r, status r, clearValue r))
                 (store (commitWorld ?wNew ?i ?r (nat v)) ?i) = Some (a, Verified, Some (nat v))"
    by (simp add: commitWorld_def verifiedRecord_def newRecord_def)
  from called before handle ret after show ?thesis
    unfolding created fin by blast
qed

lemma digits10_7: "digits10 7 = ''7''"
  by (simp add: digits10.simps)

lemma digits10_0: "digits10 0 = ''0''"
  by (simp add: digits10.simps)

lemma digits10_42: "digits10 42 = ''42''"
  by (simp add: digits10.simps)

lemma parseInt_42: "parseInt ''42'' = Num 42"
  by (simp add: js_defs toDouble_small)

lemma encrypt_42:
  "e_encrypt (ledgerEnv id) ''0xC0'' ''0xA1'' (Num 42) world0 =
     (Inr \<lparr>encryptedData = ''0x0'', proof_bytes = inclusionProof ''0xC0/0xA1'' ''0x0''\<rparr>,
      worldEncrypted)"
  by (simp add: ledger_defs digits10_0 Let_def)

lemma insert_item7:
  "e_createBusinessData (ledgerEnv id) ''0xA1'' ''item-7'' ''crate'' ''0x0''
       (inclusionProof ''0xC0/0xA1'' ''0x0'') 2 0 ''steel'' worldEncrypted =
     (None, worldCreated)"
  by (simp add: ledger_defs)

lemma created_reads:
  "e_getBusinessData (ledgerEnv others) worldCreated ''item-7'' =
     Inr \<lparr>bd_name = ''crate'', bd_publicValue1 = 2, bd_publicValue2 = 0,
          bd_description = ''steel'', bd_creator = ''0xA1'', bd_timestamp = 7,
          bd_isVerified = False, bd_decryptedValue = 0\<rparr>"
  "e_getEncryptedValue (ledgerEnv others) worldCreated ''item-7'' = Inr ''0x0''"
  "e_getContractReadOnly (ledgerEnv others) worldCreated = Inr True"
  "e_getContractWithSigner (ledgerEnv others) worldCreated = Inr True"
  by (simp_all add: ledger_defs)

lemma request_item7:
  "requestClearValue [''0x0''] ''0xC0'' worldCreated =
     Inr \<lparr>clearValues = [''0x0'' \<mapsto> 42], abiEncodedClearValues = [42],
          decryptionProof = decryptionProofFor ''0xC0'' [''0x0''] [42]\<rparr>"
  by (simp add: requestClearValue_def worldCreated_def worldEncrypted_def world0_def)

lemma submit_item7:
  "ledger_verifyDecryption sender ''item-7'' [42]
       (decryptionProofFor ''0xC0'' [''0x0''] [42]) worldCreated =
     (None, worldVerified)"
  by (simp add: ledger_verifyDecryption_def ledger_commit_def store_get_def verifyProof_def
        compareAndSet_def toPending_def toVerified_def forwardStep_def newRecord_def
        worldCreated_def worldEncrypted_def worldVerified_def world0_def
        decryptionProofFor_def numeral_2_eq_2)

lemma verify_item7:
  "e_verifyDecryption (ledgerEnv id) [''0x0''] ''0xC0''
       (e_contractVerifyDecryption (ledgerEnv id) ''0xB2'' ''item-7'') worldCreated =
     (Inr \<lparr>clearValues = [''0x0'' \<mapsto> 42], abiEncodedClearValues = [42],
           decryptionProof = decryptionProofFor ''0xC0'' [''0x0''] [42]\<rparr>,
      worldVerified)"
  by (simp add: ledgerEnv_def sdk_verifyDecryption_def request_item7 submit_item7)

theorem create_then_verify_round_trip_witness:
  "CallEncrypt (Num 42)
     \<in> set (calls (fst (createSupplyChainItem (ledgerEnv id) world0 (app0 ''0xA1'' ''42''))))
   \<and> snd (createSupplyChainItem (ledgerEnv id) world0 (app0 ''0xA1'' ''42'')) = worldCreated
   \<and> fst (decryptItemData (ledgerEnv id) ''item-7''
            (snd (createSupplyChainItem (ledgerEnv id) world0 (app0 ''0xA1'' ''42'')))
            (app0 ''0xB2'' [])) = Some (Num 42)
   \<and> map_option (\<lambda>r. (ownerId r, status r, clearValue r))
       (store
          (snd (snd (decryptItemData (ledgerEnv id) ''item-7''
                       (snd (createSupplyChainItem (ledgerEnv id) world0 (app0 ''0xA1'' ''42'')))
                       (app0 ''0xB2'' []))))
          ''item-7'') = Some (''0xA1'', Verified, Some 42)"
proof -
  have a: "callerAddress (app0 ''0xA1'' ''42'') = Some ''0xA1''"
    by (simp add: callerAddress_def app0_def)
  have b: "callerAddress (app0 ''0xB2'' []) = Some ''0xB2''"
    by (simp add: callerAddress_def app0_def)
  have p: "parseInt (nd_value (newItemData (app0 ''0xA1'' ''42''))) = Num 42"
    using parseInt_digits10_exact [of 42] by (simp add: app0_def digits10_42)
  have d: "(42::int) < int (domainBound world0)"
    by (simp add: world0_def)
  have now: "clock world0 = 7"
    by (simp add: world0_def)
  have fresh: "store world0 (''item-'' @ digits10 (clock world0)) = None"
    by (simp add: world0_def)
  have au: "ledgerAddress world0 \<in> set (authorized world0)"
    by (simp add: world0_def)
  have ca: "contractAddress (app0 ''0xB2'' []) = ledgerAddress world0"
    by (simp add: app0_def world0_def)
  have created:
    "snd (createSupplyChainItem (ledgerEnv id) world0 (app0 ''0xA1'' ''42'')) = worldCreated"
    using create_ledger [OF a p _ d fresh, of id]
    by (simp add: worldCreated_def worldEncrypted_def world0_def app0_def statusCode_def
          digits10_7 digits10_0)
  from create_then_verify_round_trip [OF a p _ d _ fresh au b ca] created show ?thesis
    by (simp add: now digits10_7)
qed

section \<open>Losing the race for the commit\<close>

lemma otherVerifies_created: "otherVerifies worldCreated = worldVerified"
proof -
  have b: "callerAddress (app0 ''0xB2'' []) = Some ''0xB2''"
    by (simp add: callerAddress_def app0_def)
  have v: "e_verifyDecryption (ledgerEnv id) [''0x0''] (contractAddress (app0 ''0xB2'' []))
             (e_contractVerifyDecryption (ledgerEnv id) ''0xB2'' ''item-7'') worldCreated =
           (Inr \<lparr>clearValues = [''0x0'' \<mapsto> 42], abiEncodedClearValues = [42],
                 decryptionProof = decryptionProofFor ''0xC0'' [''0x0''] [42]\<rparr>,
            worldVerified)"
    using verify_item7 by (simp add: app0_def)
  show ?thesis
    unfolding otherVerifies_def
    using b created_reads(3) [of id] created_reads(1) [of id] _ created_reads(4) [of id] created_reads(2) [of id] v
    by (rule decrypt_success(2)) simp
qed

lemma request_verified:
  "requestClearValue [''0x0''] ''0xC0'' worldVerified =
     Inr \<lparr>clearValues = [''0x0'' \<mapsto> 42], abiEncodedClearValues = [42],
          decryptionProof = decryptionProofFor ''0xC0'' [''0x0''] [42]\<rparr>"
  by (simp add: requestClearValue_def worldVerified_def world0_def)

lemma submit_verified:
  "ledger_verifyDecryption sender ''item-7'' vals decProof worldVerified =
     (Some (Thrown (Some ''execution reverted: Data already verified'')), worldVerified)"
  by (simp add: ledger_verifyDecryption_def store_get_def worldVerified_def world0_def)

lemma race_throw:
  "e_verifyDecryption (ledgerEnv otherVerifies) [''0x0''] ''0xC0''
       (e_contractVerifyDecryption (ledgerEnv otherVerifies) ''0xA1'' ''item-7'')
       worldCreated =
     (Inl (Thrown (Some ''execution reverted: Data already verified'')), worldVerified)"
  by (simp add: ledgerEnv_def sdk_verifyDecryption_def otherVerifies_created
        request_verified submit_verified)

lemma verified_reads:
  "e_getContractReadOnly (ledgerEnv others) worldVerified = Inr True"
  "e_getAllBusinessIds (ledgerEnv others) worldVerified = Inr [''item-7'']"
  "e_getBusinessData (ledgerEnv others) worldVerified ''item-7'' =
     Inr \<lparr>bd_name = ''crate'', bd_publicValue1 = 2, bd_publicValue2 = 0,
          bd_description = ''steel'', bd_creator = ''0xA1'', bd_timestamp = 7,
          bd_isVerified = True, bd_decryptedValue = 42\<rparr>"
  by (simp_all add: ledger_defs)

text \<open>
  Claim C3, evaluated at the failing input. The dashboard of \<open>0xA1\<close> reads the record
  \<open>item-7\<close> while it is not verified; during its decryption request the stakeholder
  \<open>0xB2\<close> completes the verification and commits 42; the submission of \<open>0xA1\<close> is then
  rejected with a message that includes \<open>Data already verified\<close>. The call shows the
  success toast and leaves the committed record as it is, but it returns \<open>null\<close> and
  not the committed 42, which the same call returns when it finds the record verified
  at its first read.
\<close>

theorem race_loser_returns_null:
  "fst (decryptItemData (ledgerEnv otherVerifies) ''item-7'' worldCreated (app0 ''0xA1'' [])) =
     None
   \<and> transactionStatus
       (fst (snd (decryptItemData (ledgerEnv otherVerifies) ''item-7'' worldCreated
                    (app0 ''0xA1'' [])))) =
       \<lparr>ts_visible = True, ts_status = ToastSuccess,
        ts_message = ''Data is already verified on-chain''\<rparr>
   \<and> snd (snd (decryptItemData (ledgerEnv otherVerifies) ''item-7'' worldCreated
                 (app0 ''0xA1'' []))) = worldVerified
   \<and> map_option clearValue (store worldVerified ''item-7'') = Some (Some 42)
   \<and> fst (decryptItemData (ledgerEnv id) ''item-7'' worldVerified (app0 ''0xA1'' [])) =
       Some (Num 42)"
proof -
  have c: "callerAddress (app0 ''0xA1'' []) = Some ''0xA1''"
    by (simp add: callerAddress_def app0_def)
  have t: "e_verifyDecryption (ledgerEnv otherVerifies) [''0x0'']
             (contractAddress (app0 ''0xA1'' []))
             (e_contractVerifyDecryption (ledgerEnv otherVerifies) ''0xA1'' ''item-7'')
             worldCreated =
           (Inl (Thrown (Some ''execution reverted: Data already verified'')), worldVerified)"
    using race_throw by (simp add: app0_def)
  have lost:
    "fst (decryptItemData (ledgerEnv otherVerifies) ''item-7'' worldCreated
            (app0 ''0xA1'' [])) = None
     \<and> transactionStatus
         (fst (snd (decryptItemData (ledgerEnv otherVerifies) ''item-7'' worldCreated
                      (app0 ''0xA1'' [])))) =
         \<lparr>ts_visible = True, ts_status = ToastSuccess,
          ts_message = ''Data is already verified on-chain''\<rparr>
     \<and> snd (snd (decryptItemData (ledgerEnv otherVerifies) ''item-7'' worldCreated
                   (app0 ''0xA1'' []))) = worldVerified"
    using c created_reads [of otherVerifies] t verified_reads [of otherVerifies]
    by (simp add: decryptItemData_def decryptBody_def decryptUnverified_def
          decryptSubmit_def decryptCatch_def msgIncludes_def loadSupplyChainData_def
          notify_def setStatus_def logCall_def app0_def)
  have stored: "map_option clearValue (store worldVerified ''item-7'') = Some (Some 42)"
    by (simp add: worldVerified_def)
  have "decryptItemData (ledgerEnv id) ''item-7'' worldVerified (app0 ''0xA1'' []) =
          (Some (orZero (Number_bigint 42)),
           (app0 ''0xA1'' [])
             \<lparr>isDecrypting := False,
              transactionStatus :=
                \<lparr>ts_visible = True, ts_status = ToastSuccess,
                 ts_message = ''Data already verified on-chain''\<rparr>,
              timers := timers (app0 ''0xA1'' []) @ [2000],
              calls := calls (app0 ''0xA1'' [])
                         @ [CallGetContractReadOnly, CallGetBusinessData ''item-7'']\<rparr>,
           worldVerified)"
    using decrypt_verified_step [OF c verified_reads(1) [of id] verified_reads(3) [of id]]
    by simp
  then have again:
    "fst (decryptItemData (ledgerEnv id) ''item-7'' worldVerified (app0 ''0xA1'' [])) =
       Some (Num 42)"
    by (simp add: Number_bigint_small orZero_Num)
  from lost stored again show ?thesis
    by simp
qed

section \<open>The value field of the create form\<close>

lemma formStep_digits:
  "\<forall>c \<in> set (nd_value itemData). isDigit c \<Longrightarrow>
     \<forall>c \<in> set (nd_value (formStep event itemData)). isDigit c"
  by (cases event) (simp_all add: handleChange_def setField_def emptyItemData_def)

lemma fold_digits:
  "\<forall>c \<in> set (nd_value itemData). isDigit c \<Longrightarrow>
     \<forall>c \<in> set (nd_value (foldl (\<lambda>itemData event. formStep event itemData) itemData events)).
        isDigit c"
proof (induction events arbitrary: itemData)
  case Nil
  then show ?case by simp
next
  case (Cons e es)
  from formStep_digits [OF Cons.prems]
  have "\<forall>c \<in> set (nd_value (formStep e itemData)). isDigit c" .
  from Cons.IH [OF this] show ?case by simp
qed

lemma formAfter_digits: "\<forall>c \<in> set (nd_value (formAfter events)). isDigit c"
  unfolding formAfter_def by (rule fold_digits) (simp add: emptyItemData_def)

lemma formAfter_typedMinusFive:
  "formAfter typedMinusFive =
     \<lparr>nd_name = ''crate'', nd_value = ''5'', nd_description = [], nd_location = [],
      nd_status = ''manufactured''\<rparr>"
  by (simp add: formAfter_def typedMinusFive_def handleChange_def setField_def isDigit_def
        emptyItemData_def)

lemma appTyped_typedFortyTwo: "appTyped user typedFortyTwo = app0 user ''42''"
  by (simp add: appTyped_def formAfter_def typedFortyTwo_def handleChange_def setField_def
        isDigit_def emptyItemData_def app0_def)

lemma parseInt_5: "parseInt ''5'' = Num 5"
  by (simp add: js_defs toDouble_small)

text \<open>
  Claim C4 as stated fails on an input the form accepts. A user names the item and
  enters \<open>-5\<close>, a value outside the provider's non-negative domain. \<open>handleChange\<close>
  stores \<open>5\<close>, the submit button is enabled, and \<open>createSupplyChainItem\<close> creates the
  record \<open>item-7\<close> with the plaintext 5 and the success toast: nothing is rejected and
  no validation error is raised.
\<close>

theorem create_accepts_typed_negative:
  "nd_value (formAfter typedMinusFive) = ''5''
   \<and> \<not> submitDisabled False False (formAfter typedMinusFive)
   \<and> map_option (\<lambda>r. (status r, ciphertextHandle r))
       (store (snd (createSupplyChainItem (ledgerEnv id) world0
                      (appTyped ''0xA1'' typedMinusFive))) ''item-7'') =
       Some (Created, ''0x0'')
   \<and> plaintexts (snd (createSupplyChainItem (ledgerEnv id) world0
                        (appTyped ''0xA1'' typedMinusFive))) ''0x0'' = Some 5
   \<and> transactionStatus
       (fst (createSupplyChainItem (ledgerEnv id) world0 (appTyped ''0xA1'' typedMinusFive))) =
       \<lparr>ts_visible = True, ts_status = ToastSuccess,
        ts_message = ''Supply chain item created successfully!''\<rparr>"
  unfolding appTyped_def formAfter_typedMinusFive
  by (simp add: submitDisabled_def app_defs ledger_defs Let_def digits10_7 digits10_0
        parseInt_5 orZero_Num)

text \<open>
  Claim C4 as amended. \<open>createSupplyChainItem\<close> has no validation step and no
  validation error: with a connected wallet and the signer's contract, its first call is
  \<open>encrypt\<close> on the number read from the value field, whatever the later calls do; and
  when the provider and the contract accept, the record is created and the form is
  reset. The shape of the value is the form's work. After any sequence of changes and
  resets the value field holds decimal digits only (a sign, a point or a letter that is
  entered is dropped, so \<open>-5\<close> is stored as \<open>5\<close>), and the submit button is disabled
  while the name or the value is empty. So the number encrypted for a form that can be
  submitted is the one its digits denote, as a JavaScript number: a non-negative integer
  or \<open>Infinity\<close>.
\<close>

theorem create_sanitizes_without_validation:
  "(\<forall>c \<in> set (nd_value (formAfter events)). isDigit c)
   \<and> (\<not> submitDisabled creating isEncrypting (formAfter events) \<longrightarrow>
        orZero (parseInt (nd_value (formAfter events))) =
          toDouble (int (fromDigits 10 (takeDigits 10 (nd_value (formAfter events)))))
        \<and> (orZero (parseInt (nd_value (formAfter events))) = PosInf
           \<or> (\<exists>n. 0 \<le> n \<and> orZero (parseInt (nd_value (formAfter events))) = Num n)))
   \<and> (callerAddress st = Some a \<longrightarrow>
        e_getContractWithSigner env w = Inr True \<longrightarrow>
        (\<exists>rest. calls (fst (createSupplyChainItem env w st)) =
                  calls st @ [CallGetContractWithSigner,
                              CallEncrypt (orZero (parseInt (nd_value (newItemData st))))]
                           @ rest))
   \<and> (callerAddress st = Some a \<longrightarrow>
        e_getContractWithSigner env w = Inr True \<longrightarrow>
        e_encrypt env (contractAddress st) a
          (orZero (parseInt (nd_value (newItemData st)))) w = (Inr er, wEnc) \<longrightarrow>
        e_createBusinessData env a (''item-'' @ digits10 (e_dateNow env w))
          (nd_name (newItemData st)) (encryptedData er) (proof_bytes er)
          (statusCode (nd_status (newItemData st))) 0
          (nd_description (newItemData st)) wEnc = (None, wNew) \<longrightarrow>
        snd (createSupplyChainItem env w st) = wNew
        \<and> newItemData (fst (createSupplyChainItem env w st)) = emptyItemData)"
proof -
  let ?s = "nd_value (formAfter events)"
  have one: "\<forall>c \<in> set ?s. isDigit c"
    by (rule formAfter_digits)
  have two: "orZero (parseInt ?s) = toDouble (int (fromDigits 10 (takeDigits 10 ?s)))
             \<and> (orZero (parseInt ?s) = PosInf \<or> (\<exists>n. 0 \<le> n \<and> orZero (parseInt ?s) = Num n))"
    if "\<not> submitDisabled creating isEncrypting (formAfter events)"
  proof -
    from that have ne: "?s \<noteq> []"
      by (simp add: submitDisabled_def)
    have p: "parseInt ?s = toDouble (int (fromDigits 10 (takeDigits 10 ?s)))"
      using one ne by (rule parseInt_decimal)
    have z: "orZero (parseInt ?s) = toDouble (int (fromDigits 10 (takeDigits 10 ?s)))"
      unfolding p by (rule orZero_toDouble) simp
    from toDouble_nonneg [of "int (fromDigits 10 (takeDigits 10 ?s))"] z show ?thesis
      by simp
  qed
  have three: "\<exists>rest. calls (fst (createSupplyChainItem env w st)) =
                 calls st @ [CallGetContractWithSigner,
                             CallEncrypt (orZero (parseInt (nd_value (newItemData st))))]
                          @ rest"
    if "callerAddress st = Some a" and "e_getContractWithSigner env w = Inr True"
    using that by (rule create_calls_encrypt)
  have four: "snd (createSupplyChainItem env w st) = wNew
              \<and> newItemData (fst (createSupplyChainItem env w st)) = emptyItemData"
    if "callerAddress st = Some a"
      and "e_getContractWithSigner env w = Inr True"
      and "e_encrypt env (contractAddress st) a
             (orZero (parseInt (nd_value (newItemData st)))) w = (Inr er, wEnc)"
      and "e_createBusinessData env a (''item-'' @ digits10 (e_dateNow env w))
             (nd_name (newItemData st)) (encryptedData er) (proof_bytes er)
             (statusCode (nd_status (newItemData st))) 0
             (nd_description (newItemData st)) wEnc = (None, wNew)"
    using create_success(1) [OF that] create_success(2) [OF that] by simp
  from one two three four show ?thesis
    by blast
qed

theorem create_sanitizes_without_validation_witness:
  "nd_value (formAfter typedFortyTwo) = ''42''
   \<and> \<not> submitDisabled False False (formAfter typedFortyTwo)
   \<and> orZero (parseInt (nd_value (formAfter typedFortyTwo))) = Num 42
   \<and> take 2 (calls (fst (createSupplyChainItem (ledgerEnv id) world0
                           (appTyped ''0xA1'' typedFortyTwo)))) =
       [CallGetContractWithSigner, CallEncrypt (Num 42)]
   \<and> snd (createSupplyChainItem (ledgerEnv id) world0 (appTyped ''0xA1'' typedFortyTwo)) =
       worldCreated
   \<and> newItemData
       (fst (createSupplyChainItem (ledgerEnv id) world0 (appTyped ''0xA1'' typedFortyTwo))) =
       emptyItemData"
proof -
  let ?st = "app0 ''0xA1'' ''42''"
  have st: "appTyped ''0xA1'' typedFortyTwo = ?st"
    by (rule appTyped_typedFortyTwo)
  have form: "formAfter typedFortyTwo = newItemData ?st"
    using st by (simp add: appTyped_def app0_def)
  have val: "nd_value (formAfter typedFortyTwo) = ''42''"
    by (simp add: form app0_def)
  have enabled: "\<not> submitDisabled False False (formAfter typedFortyTwo)"
    by (simp add: form submitDisabled_def app0_def)
  have a: "callerAddress ?st = Some ''0xA1''"
    by (simp add: callerAddress_def app0_def)
  have s: "e_getContractWithSigner (ledgerEnv id) world0 = Inr True"
    by (simp add: ledgerEnv_def)
  have now: "e_dateNow (ledgerEnv id) world0 = 7"
    by (simp add: ledgerEnv_def world0_def)
  have parsed: "orZero (parseInt (nd_value (newItemData ?st))) = Num 42"
    by (simp add: app0_def parseInt_42 orZero_Num)
  have e: "e_encrypt (ledgerEnv id) (contractAddress ?st) ''0xA1''
             (orZero (parseInt (nd_value (newItemData ?st)))) world0 =
           (Inr \<lparr>encryptedData = ''0x0'', proof_bytes = inclusionProof ''0xC0/0xA1'' ''0x0''\<rparr>,
            worldEncrypted)"
    unfolding parsed using encrypt_42 by (simp add: app0_def)
  have i: "e_createBusinessData (ledgerEnv id) ''0xA1''
             (''item-'' @ digits10 (e_dateNow (ledgerEnv id) world0))
             (nd_name (newItemData ?st))
             (encryptedData
                \<lparr>encryptedData = ''0x0'',
                 proof_bytes = inclusionProof ''0xC0/0xA1'' ''0x0''\<rparr>)
             (proof_bytes
                \<lparr>encryptedData = ''0x0'',
                 proof_bytes = inclusionProof ''0xC0/0xA1'' ''0x0''\<rparr>)
             (statusCode (nd_status (newItemData ?st))) 0
             (nd_description (newItemData ?st)) worldEncrypted =
           (None, worldCreated)"
    using insert_item7 by (simp add: now digits10_7 app0_def statusCode_def)
  note inst = create_sanitizes_without_validation
         [where events = typedFortyTwo and creating = False and isEncrypting = False
            and env = "ledgerEnv id" and w = world0 and st = ?st
            and a = "''0xA1''" and wEnc = worldEncrypted and wNew = worldCreated
            and er = "\<lparr>encryptedData = ''0x0'',
                       proof_bytes = inclusionProof ''0xC0/0xA1'' ''0x0''\<rparr>"]
  from inst enabled have num:
    "orZero (parseInt (nd_value (formAfter typedFortyTwo))) =
       toDouble (int (fromDigits 10 (takeDigits 10 (nd_value (formAfter typedFortyTwo)))))"
    by blast
  have "toDouble (int (fromDigits 10 (takeDigits 10 (nd_value (formAfter typedFortyTwo))))) =
          Num 42"
    by (simp add: val digitOf_def fromDigits_def toDouble_small)
  with num have n42: "orZero (parseInt (nd_value (formAfter typedFortyTwo))) = Num 42"
    by simp
  from inst a s obtain rest where
    "calls (fst (createSupplyChainItem (ledgerEnv id) world0 ?st)) =
       calls ?st @ [CallGetContractWithSigner,
                    CallEncrypt (orZero (parseInt (nd_value (newItemData ?st))))] @ rest"
    by blast
  moreover have "calls ?st = []"
    by (simp add: app0_def)
  ultimately have log:
    "take 2 (calls (fst (createSupplyChainItem (ledgerEnv id) world0 ?st))) =
       [CallGetContractWithSigner, CallEncrypt (Num 42)]"
    by (simp add: parsed)
  from inst a s e i
  have fin: "snd (createSupplyChainItem (ledgerEnv id) world0 ?st) = worldCreated
             \<and> newItemData (fst (createSupplyChainItem (ledgerEnv id) world0 ?st)) =
                 emptyItemData"
    by blast
  from val enabled n42 log fin show ?thesis
    unfolding st by simp
qed

section \<open>At most one commit\<close>






















end
